theory Spec2Isabelle
  imports Complex_Main
begin

section \<open>Coarse matching (loftr/utils/coarse_matching.py)\<close>

text \<open>
  A shallow embedding of the class \<open>CoarseMatching\<close>. Tensors are nested lists
  (a tensor of shape [N, L, S] is a list of N lists of L lists of S entries), their
  floating-point entries are real numbers, Python exceptions are values of
  \<open>py_error\<close>, the configuration and the \<open>data\<close> dictionaries are records whose
  optional keys are \<open>option\<close> fields, and the in-place updates of the mask and of
  \<open>data\<close> are explicit state passing.
\<close>

subsection \<open>Exceptions\<close>

datatype py_error =
    KeyError
  | ImportError
  | NotImplementedError
  | AttributeError
  | AssertionError
  | RuntimeError
  | IndexError
  | ZeroDivisionError

subsection \<open>Tensors as nested lists\<close>

type_synonym 'a tensor2 = "'a list list"
type_synonym 'a tensor3 = "'a list list list"
type_synonym 'a tensor5 = "'a list list list list list"

text \<open>\<open>t.size(1)\<close> and \<open>t.size(2)\<close>, read off the first element of each level.\<close>

definition size1 :: "'a list list \<Rightarrow> nat" where
  "size1 t = (case t of [] \<Rightarrow> 0 | m # _ \<Rightarrow> length m)"

definition size2 :: "'a list list list \<Rightarrow> nat" where
  "size2 t = (case t of [] \<Rightarrow> 0 | m # _ \<Rightarrow> size1 m)"

text \<open>The nested list is rectangular, of the given shape.\<close>

definition shape2 :: "nat \<Rightarrow> nat \<Rightarrow> 'a tensor2 \<Rightarrow> bool" where
  "shape2 n l t = (length t = n \<and> list_all (\<lambda>r. length r = l) t)"

definition shape3 :: "nat \<Rightarrow> nat \<Rightarrow> nat \<Rightarrow> 'a tensor3 \<Rightarrow> bool" where
  "shape3 n l s t = (length t = n \<and> list_all (shape2 l s) t)"

subsection \<open>Configuration and construction\<close>

text \<open>
  The dictionary \<open>config\<close>: \<open>None\<close> is a missing key, whose lookup raises
  \<open>KeyError\<close>.
\<close>

record config =
  cfg_thr :: "real option"
  cfg_border_rm :: "int option"
  cfg_train_coarse_percent :: "real option"
  cfg_train_pad_num_gt_min :: "int option"
  cfg_match_type :: "string option"
  cfg_dsmax_temperature :: "real option"
  cfg_skh_init_bin_score :: "real option"
  cfg_skh_iters :: "int option"
  cfg_skh_prefilter :: "bool option"

text \<open>
  The attributes of a constructed matcher. \<open>temperature\<close> is set in dual-softmax mode
  only, \<open>bin_score\<close>, \<open>skh_iters\<close>, \<open>skh_prefilter\<close> and the imported
  \<open>log_optimal_transport\<close> in Sinkhorn mode only: \<open>None\<close> (\<open>False\<close>) is an attribute
  that was never assigned, whose read raises \<open>AttributeError\<close>.
\<close>

record CoarseMatching =
  thr :: real
  border_rm :: int
  train_coarse_percent :: real
  train_pad_num_gt_min :: int
  match_type :: string
  temperature :: "real option"
  has_log_optimal_transport :: bool
  bin_score :: "real option"
  skh_iters :: "int option"
  skh_prefilter :: "bool option"

definition lookup :: "'a option \<Rightarrow> py_error + 'a" where
  "lookup v = (case v of None \<Rightarrow> Inl KeyError | Some x \<Rightarrow> Inr x)"

text \<open>Sequencing: an exception of the first computation ends the whole.\<close>

definition then_do :: "py_error + 'a \<Rightarrow> ('a \<Rightarrow> py_error + 'b) \<Rightarrow> py_error + 'b" where
  "then_do r f = (case r of Inl e \<Rightarrow> Inl e | Inr x \<Rightarrow> f x)"

text \<open>
  \<open>CoarseMatching.__init__\<close>. The module \<open>superglue\<close> is not part of the repository
  (the source asks to download it): \<open>superglue_importable\<close> says whether the import
  succeeds. The configured border margin is read and then overwritten by 0.
\<close>

definition init :: "bool \<Rightarrow> config \<Rightarrow> py_error + CoarseMatching" where
  "init superglue_importable cfg =
    then_do (lookup (cfg_thr cfg)) (\<lambda>thr_v.
    then_do (lookup (cfg_border_rm cfg)) (\<lambda>border_rm_v.
    let border_rm_v = 0 in
    then_do (lookup (cfg_train_coarse_percent cfg)) (\<lambda>percent.
    then_do (lookup (cfg_train_pad_num_gt_min cfg)) (\<lambda>pad_min.
    then_do (lookup (cfg_match_type cfg)) (\<lambda>mt.
    let self = \<lparr> thr = thr_v, border_rm = border_rm_v, train_coarse_percent = percent,
                 train_pad_num_gt_min = pad_min, match_type = mt, temperature = None,
                 has_log_optimal_transport = False, bin_score = None, skh_iters = None,
                 skh_prefilter = None \<rparr> in
    if mt = ''dual_softmax'' then
      then_do (lookup (cfg_dsmax_temperature cfg)) (\<lambda>t.
      Inr (self\<lparr> temperature := Some t \<rparr>))
    else if mt = ''sinkhorn'' then
      (if superglue_importable then
         then_do (lookup (cfg_skh_init_bin_score cfg)) (\<lambda>bs.
         then_do (lookup (cfg_skh_iters cfg)) (\<lambda>it.
         then_do (lookup (cfg_skh_prefilter cfg)) (\<lambda>pf.
         Inr (self\<lparr> has_log_optimal_transport := True, bin_score := Some bs,
                    skh_iters := Some it, skh_prefilter := Some pf \<rparr>))))
       else Inl ImportError)
    else Inl NotImplementedError)))))"

subsection \<open>Similarity and confidence matrix (forward, lines 110 to 125)\<close>

definition dot :: "real list \<Rightarrow> real list \<Rightarrow> real" where
  "dot u v = sum_list (map2 (*) u v)"

text \<open>\<open>torch.einsum("nlc,nsc->nls", a, b)\<close>.\<close>

definition einsum_nlc_nsc :: "real tensor3 \<Rightarrow> real tensor3 \<Rightarrow> real tensor3" where
  "einsum_nlc_nsc a b = map2 (\<lambda>a_n b_n. map (\<lambda>u. map (\<lambda>v. dot u v) b_n) a_n) a b"

text \<open>A tensor divided by a scalar.\<close>

definition tdiv :: "real tensor3 \<Rightarrow> real \<Rightarrow> real tensor3" where
  "tdiv t c = map (map (map (\<lambda>x. x / c))) t"

text \<open>\<open>mask_c0[..., None] * mask_c1[:, None]\<close>: the product of booleans is their conjunction.\<close>

definition pair_mask :: "bool tensor2 \<Rightarrow> bool tensor2 \<Rightarrow> bool tensor3" where
  "pair_mask m0 m1 = map2 (\<lambda>r0 r1. map (\<lambda>v0. map (\<lambda>v1. v0 \<and> v1) r1) r0) m0 m1"

definition invert :: "bool tensor3 \<Rightarrow> bool tensor3" where
  "invert t = map (map (map Not)) t"

definition masked_fill :: "real tensor3 \<Rightarrow> bool tensor3 \<Rightarrow> real \<Rightarrow> real tensor3" where
  "masked_fill t msk v = map2 (map2 (map2 (\<lambda>x b. if b then v else x))) t msk"

text \<open>
  \<open>F.softmax(t, 2)\<close> normalises every row \<open>t[n][l]\<close>; \<open>F.softmax(t, 1)\<close> normalises
  every column \<open>t[n][:, s]\<close>, dividing by the column sums of the exponentials.
\<close>

definition softmax_dim2 :: "real tensor3 \<Rightarrow> real tensor3" where
  "softmax_dim2 t = map (map (\<lambda>row. map (\<lambda>x. exp x / sum_list (map exp row)) row)) t"

definition softmax_dim1 :: "real tensor3 \<Rightarrow> real tensor3" where
  "softmax_dim1 t =
     map (\<lambda>m. map (\<lambda>row. map2 (\<lambda>x z. exp x / z) row
                           (map sum_list (transpose (map (map exp) m)))) m) t"

definition mul3 :: "real tensor3 \<Rightarrow> real tensor3 \<Rightarrow> real tensor3" where
  "mul3 a b = map2 (map2 (map2 (*))) a b"

text \<open>The local constant \<open>INF = 1e9\<close> of \<open>forward\<close>.\<close>

definition INF_value :: real where
  "INF_value = 1000000000"

text \<open>
  Lines 113 to 119 of \<open>forward\<close>: both feature batches divided by the square root of
  their own last dimension, their batched product, divided by the temperature.
\<close>

definition similarity :: "real tensor3 \<Rightarrow> real tensor3 \<Rightarrow> real \<Rightarrow> real tensor3" where
  "similarity feat_c0 feat_c1 t =
    (let f0 = tdiv feat_c0 (sqrt (real (size2 feat_c0)));
         f1 = tdiv feat_c1 (sqrt (real (size2 feat_c1)))
     in tdiv (einsum_nlc_nsc f0 f1) t)"

text \<open>Line 125: \<open>F.softmax(sim_matrix, 1) * F.softmax(sim_matrix, 2)\<close>.\<close>

definition dual_softmax :: "real tensor3 \<Rightarrow> real tensor3" where
  "dual_softmax sim_matrix = mul3 (softmax_dim1 sim_matrix) (softmax_dim2 sim_matrix)"

text \<open>
  Lines 110 to 125 of \<open>forward\<close>: the confidence matrix, or the exception raised on the
  way. \<open>einsum\<close> and \<open>masked_fill_\<close> raise on operands whose shapes do not fit; the model
  raises whenever the operands are not of the documented shapes [N, L, C], [N, S, C],
  [N, L] and [N, S] (torch would broadcast a dimension of size 1). The operands of
  \<open>einsum(...) / self.temperature\<close> are evaluated from left to right.
\<close>

definition forward_conf ::
  "CoarseMatching \<Rightarrow> real tensor3 \<Rightarrow> real tensor3 \<Rightarrow> bool tensor2 option \<Rightarrow>
   bool tensor2 option \<Rightarrow> py_error + real tensor3" where
  "forward_conf self feat_c0 feat_c1 mask_c0 mask_c1 =
    (let N = length feat_c0; L = size1 feat_c0; S = size1 feat_c1; C = size2 feat_c0
     in if shape3 N L C feat_c0 \<and> shape3 N S C feat_c1 then
          (case temperature self of None \<Rightarrow> Inl AttributeError | Some t \<Rightarrow>
           let sim_matrix = similarity feat_c0 feat_c1 t in
           (case mask_c0 of
              None \<Rightarrow> Inr (dual_softmax sim_matrix)
            | Some m0 \<Rightarrow>
               (case mask_c1 of
                  None \<Rightarrow> Inl AssertionError
                | Some m1 \<Rightarrow>
                   if shape2 N L m0 \<and> shape2 N S m1 then
                     (let sim_matrix = masked_fill sim_matrix (invert (pair_mask m0 m1)) (- INF_value)
                      in Inr (dual_softmax sim_matrix))
                   else Inl RuntimeError)))
        else Inl RuntimeError)"

subsection \<open>Border masking\<close>

text \<open>
  A bound \<open>k\<close> of a Python slice over a sequence of length \<open>n\<close>: a negative bound
  counts from the end, and every bound is clipped to the sequence.
\<close>

definition py_index :: "int \<Rightarrow> nat \<Rightarrow> nat" where
  "py_index k n = (if k < 0 then nat (max 0 (int n + k)) else min n (nat k))"

text \<open>
  \<open>xs[start:stop] = ...\<close> along one axis: \<open>f\<close> rewrites the elements the slice selects
  (\<open>None\<close> is an omitted bound).
\<close>

definition set_slice :: "int option \<Rightarrow> int option \<Rightarrow> ('a \<Rightarrow> 'a) \<Rightarrow> 'a list \<Rightarrow> 'a list" where
  "set_slice start stop f xs =
    (let n = length xs;
         lo = (case start of None \<Rightarrow> 0 | Some k \<Rightarrow> py_index k n);
         hi = (case stop of None \<Rightarrow> n | Some k \<Rightarrow> py_index k n)
     in map (\<lambda>(i, x). if lo \<le> i \<and> i < hi then f x else x) (enumerate 0 xs))"

text \<open>The four slice assignments \<open>m[..., start:stop] = v\<close> on the axes of one sample.\<close>

definition fill_axis1 :: "int option \<Rightarrow> int option \<Rightarrow> 'a \<Rightarrow> 'a list list list list \<Rightarrow> 'a list list list list" where
  "fill_axis1 start stop v g = set_slice start stop (map (map (map (\<lambda>_. v)))) g"

definition fill_axis2 :: "int option \<Rightarrow> int option \<Rightarrow> 'a \<Rightarrow> 'a list list list list \<Rightarrow> 'a list list list list" where
  "fill_axis2 start stop v g = map (set_slice start stop (map (map (\<lambda>_. v)))) g"

definition fill_axis3 :: "int option \<Rightarrow> int option \<Rightarrow> 'a \<Rightarrow> 'a list list list list \<Rightarrow> 'a list list list list" where
  "fill_axis3 start stop v g = map (map (set_slice start stop (map (\<lambda>_. v)))) g"

definition fill_axis4 :: "int option \<Rightarrow> int option \<Rightarrow> 'a \<Rightarrow> 'a list list list list \<Rightarrow> 'a list list list list" where
  "fill_axis4 start stop v g = map (map (map (set_slice start stop (\<lambda>_. v)))) g"

text \<open>
  \<open>mask_border(m, b, v)\<close>: the source updates \<open>m\<close> in place and returns nothing; the
  model returns the updated mask.
\<close>

definition mask_border :: "'a tensor5 \<Rightarrow> int \<Rightarrow> 'a \<Rightarrow> 'a tensor5" where
  "mask_border m b v =
    (if b \<le> 0 then m
     else
       let m = map (fill_axis1 None (Some b) v) m;
           m = map (fill_axis2 None (Some b) v) m;
           m = map (fill_axis3 None (Some b) v) m;
           m = map (fill_axis4 None (Some b) v) m;
           m = map (fill_axis1 (Some (- b)) None v) m;
           m = map (fill_axis2 (Some (- b)) None v) m;
           m = map (fill_axis3 (Some (- b)) None v) m;
           m = map (fill_axis4 (Some (- b)) None v) m
       in m)"

text \<open>
  The valid extents of the padded masks \<open>p_m\<close> of shape [N, H, W]:
  \<open>p_m.sum(1).max(-1)[0]\<close> is the largest column sum (the valid height) and
  \<open>p_m.sum(-1).max(-1)[0]\<close> the largest row sum (the valid width) of every sample; the
  maximum over an empty axis raises.
\<close>

definition count_true :: "bool list \<Rightarrow> int" where
  "count_true r = int (length (filter (\<lambda>x. x) r))"

definition max_of :: "int list \<Rightarrow> py_error + int" where
  "max_of xs = (case xs of [] \<Rightarrow> Inl IndexError | x # r \<Rightarrow> Inr (fold max r x))"

primrec collect :: "(py_error + 'a) list \<Rightarrow> py_error + 'a list" where
  "collect [] = Inr []"
| "collect (r # rs) = then_do r (\<lambda>x. then_do (collect rs) (\<lambda>xs. Inr (x # xs)))"

definition heights :: "bool tensor3 \<Rightarrow> py_error + int list" where
  "heights p_m = collect (map (\<lambda>p. max_of (map count_true (transpose p))) p_m)"

definition widths :: "bool tensor3 \<Rightarrow> py_error + int list" where
  "widths p_m = collect (map (\<lambda>p. max_of (map count_true p)) p_m)"

text \<open>
  The loop \<open>for b_idx, (h0, w0, h1, w1) in enumerate(zip(h0s, w0s, h1s, w1s))\<close>;
  \<open>m[b_idx, ...]\<close> raises when the mask has no sample \<open>b_idx\<close>.
\<close>

primrec border_loop ::
  "nat \<Rightarrow> (int \<times> int \<times> int \<times> int) list \<Rightarrow> int \<Rightarrow> 'a \<Rightarrow> 'a tensor5 \<Rightarrow> py_error + 'a tensor5" where
  "border_loop b_idx [] bd v m = Inr m"
| "border_loop b_idx (e # es) bd v m =
    (case e of (h0, w0, h1, w1) \<Rightarrow>
      if b_idx < length m then
        (let g = m ! b_idx;
             g = fill_axis1 (Some (h0 - bd)) None v g;
             g = fill_axis2 (Some (w0 - bd)) None v g;
             g = fill_axis3 (Some (h1 - bd)) None v g;
             g = fill_axis4 (Some (w1 - bd)) None v g
         in border_loop (Suc b_idx) es bd v (m[b_idx := g]))
      else Inl IndexError)"

text \<open>\<open>mask_border_with_padding(m, bd, v, p_m0, p_m1)\<close>, returning the updated mask.\<close>

definition mask_border_with_padding ::
  "'a tensor5 \<Rightarrow> int \<Rightarrow> 'a \<Rightarrow> bool tensor3 \<Rightarrow> bool tensor3 \<Rightarrow> py_error + 'a tensor5" where
  "mask_border_with_padding m bd v p_m0 p_m1 =
    (if bd \<le> 0 then Inr m
     else
       let m = map (fill_axis1 None (Some bd) v) m;
           m = map (fill_axis2 None (Some bd) v) m;
           m = map (fill_axis3 None (Some bd) v) m;
           m = map (fill_axis4 None (Some bd) v) m
       in then_do (heights p_m0) (\<lambda>h0s.
          then_do (widths p_m0) (\<lambda>w0s.
          then_do (heights p_m1) (\<lambda>h1s.
          then_do (widths p_m1) (\<lambda>w1s.
          border_loop 0 (zip h0s (zip w0s (zip h1s w1s))) bd v m)))))"

subsection \<open>Match extraction (get_coarse_match)\<close>

text \<open>
  The dictionary \<open>data\<close>: \<open>None\<close> is a missing key. \<open>scale0\<close> and \<open>scale1\<close> are of shape
  [N, 2], one pair of factors per sample, as their product with the [M, 2] stack of
  coordinates requires. The seven keys that \<open>get_coarse_match\<close> returns are written
  together, so they are the one field \<open>coarse\<close>.
\<close>

record coarse_matches =
  b_ids :: "nat list"
  i_ids :: "nat list"
  j_ids :: "nat list"
  m_bids :: "nat list"
  mkpts0_c :: "(real \<times> real) list"
  mkpts1_c :: "(real \<times> real) list"
  mconf :: "real list"

record data =
  hw0_i :: "(nat \<times> nat) option"
  hw1_i :: "(nat \<times> nat) option"
  hw0_c :: "(nat \<times> nat) option"
  hw1_c :: "(nat \<times> nat) option"
  mask0 :: "bool tensor3 option"
  mask1 :: "bool tensor3 option"
  dataset_name :: "string option"
  scale0 :: "(real \<times> real) list option"
  scale1 :: "(real \<times> real) list option"
  conf_matrix :: "real tensor3 option"
  coarse :: "coarse_matches option"

text \<open>\<open>n\<close> consecutive pieces of length \<open>k\<close>: a row-major reshape of a flat sequence.\<close>

primrec chunk_n :: "nat \<Rightarrow> nat \<Rightarrow> 'a list \<Rightarrow> 'a list list" where
  "chunk_n 0 k xs = []"
| "chunk_n (Suc n) k xs = take k xs # chunk_n n k (drop k xs)"

text \<open>
  \<open>mask.reshape(b, h0c, w0c, h1c, w1c)\<close> and \<open>mask.reshape(b, h0c * w0c, h1c * w1c)\<close>:
  reshape raises unless the number of elements is the product of the new shape.
\<close>

definition reshape_5 ::
  "nat \<Rightarrow> nat \<Rightarrow> nat \<Rightarrow> nat \<Rightarrow> nat \<Rightarrow> 'a tensor3 \<Rightarrow> py_error + 'a tensor5" where
  "reshape_5 b h0 w0 h1 w1 t =
    (let flat = concat (concat t) in
     if length flat = b * (h0 * (w0 * (h1 * w1))) then
       Inr (map (\<lambda>g. map (\<lambda>r. map (chunk_n h1 w1) (chunk_n w0 (h1 * w1) r))
                         (chunk_n h0 (w0 * (h1 * w1)) g))
                (chunk_n b (h0 * (w0 * (h1 * w1))) flat))
     else Inl RuntimeError)"

definition reshape_3 :: "nat \<Rightarrow> nat \<Rightarrow> nat \<Rightarrow> 'a tensor5 \<Rightarrow> py_error + 'a tensor3" where
  "reshape_3 b l s t =
    (let flat = concat (concat (concat (concat t))) in
     if length flat = b * (l * s) then Inr (map (chunk_n l s) (chunk_n b (l * s) flat))
     else Inl RuntimeError)"

text \<open>\<open>conf_matrix > self.thr\<close>.\<close>

definition gt_scalar :: "real tensor3 \<Rightarrow> real \<Rightarrow> bool tensor3" where
  "gt_scalar t c = map (map (map (\<lambda>x. x > c))) t"

text \<open>
  The maximum of a non-empty row, and the comparisons
  \<open>conf_matrix == conf_matrix.max(dim=2, keepdim=True)[0]\<close> (every entry against the
  maximum of its row) and \<open>conf_matrix == conf_matrix.max(dim=1, keepdim=True)[0]\<close>
  (against the maximum of its column).
\<close>

definition list_max :: "real list \<Rightarrow> real" where
  "list_max xs = fold max (tl xs) (hd xs)"

definition eq_max_dim2 :: "real tensor3 \<Rightarrow> bool tensor3" where
  "eq_max_dim2 t = map (map (\<lambda>row. map (\<lambda>x. x = list_max row) row)) t"

definition eq_max_dim1 :: "real tensor3 \<Rightarrow> bool tensor3" where
  "eq_max_dim1 t =
     map (\<lambda>m. map (\<lambda>row. map2 (\<lambda>x c. x = c) row (map list_max (transpose m))) m) t"

text \<open>The product of boolean tensors of one shape.\<close>

definition and3 :: "bool tensor3 \<Rightarrow> bool tensor3 \<Rightarrow> bool tensor3" where
  "and3 a b = map2 (map2 (map2 (\<and>))) a b"

text \<open>
  \<open>ck = mask.view(b, -1).sum(-1) == 0; mask[ck, 0, 0] = True\<close>: every sample without a
  single True entry gets one at (0, 0).
\<close>

definition set_first :: "bool tensor2 \<Rightarrow> bool tensor2" where
  "set_first m = m[0 := (m ! 0)[0 := True]]"

definition fill_empty :: "bool tensor3 \<Rightarrow> bool tensor3" where
  "fill_empty t = map (\<lambda>m. if count_true (concat m) = 0 then set_first m else m) t"

text \<open>
  \<open>mask.max(dim=2)\<close> on a boolean tensor: the value is True where the row has a True
  entry, and the index is that of the first maximal entry of the row (torch returns the
  first of several maximal values), so the first True entry, or 0 in a row without one.
\<close>

definition first_max :: "bool list \<Rightarrow> nat" where
  "first_max r = (if list_ex (\<lambda>x. x) r then length (takeWhile Not r) else 0)"

definition max_dim2 :: "bool tensor3 \<Rightarrow> bool tensor2 \<times> nat tensor2" where
  "max_dim2 t = (map (map (list_ex (\<lambda>x. x))) t, map (map first_max) t)"

text \<open>\<open>torch.where\<close> on a matrix: the index pairs of its True entries, in row-major order.\<close>

definition where1 :: "bool list \<Rightarrow> nat list" where
  "where1 r = map fst (filter snd (enumerate 0 r))"

definition where2 :: "bool tensor2 \<Rightarrow> (nat \<times> nat) list" where
  "where2 t = concat (map (\<lambda>(b, r). map (\<lambda>i. (b, i)) (where1 r)) (enumerate 0 t))"

text \<open>
  \<open>scale * data['scale0'][b_ids] if 'scale0' in data else scale\<close>: the factor pair of
  every match; indexing raises on a batch index that \<open>scale0\<close> does not have.
\<close>

definition match_scales ::
  "real \<Rightarrow> (real \<times> real) list option \<Rightarrow> nat list \<Rightarrow> py_error + (real \<times> real) list" where
  "match_scales scale sc bs =
    (case sc of
       None \<Rightarrow> Inr (map (\<lambda>b. (scale, scale)) bs)
     | Some f \<Rightarrow>
        if list_all (\<lambda>b. b < length f) bs
        then Inr (map (\<lambda>b. (scale * fst (f ! b), scale * snd (f ! b))) bs)
        else Inl IndexError)"

text \<open>\<open>torch.stack([ids % w, ids // w], dim=1) * scales\<close>.\<close>

definition keypoints :: "nat list \<Rightarrow> nat \<Rightarrow> (real \<times> real) list \<Rightarrow> (real \<times> real) list" where
  "keypoints ids w scales =
     map2 (\<lambda>i sc. (real (i mod w) * fst sc, real (i div w) * snd sc)) ids scales"

text \<open>
  Step 1 of \<open>get_coarse_match\<close> (lines 161 to 173): thresholding, the reshape to
  [b, h0c, w0c, h1c, w1c], border masking by \<open>self.border_rm\<close> and the reshape back.
  \<open>data['mask1']\<close> is read, and raises when the key is missing, before
  \<open>mask_border_with_padding\<close> is entered.
\<close>

definition threshold_border ::
  "CoarseMatching \<Rightarrow> real tensor3 \<Rightarrow> nat \<Rightarrow> nat \<Rightarrow> nat \<Rightarrow> nat \<Rightarrow> data \<Rightarrow> py_error + bool tensor3" where
  "threshold_border self conf h0c w0c h1c w1c data =
    (let msk = gt_scalar conf (thr self);
         b = length msk
     in
     then_do (reshape_5 b h0c w0c h1c w1c msk) (\<lambda>msk.
     then_do (case mask0 data of
                None \<Rightarrow> Inr (mask_border msk (border_rm self) False)
              | Some p_m0 \<Rightarrow>
                  then_do (lookup (mask1 data)) (\<lambda>p_m1.
                  mask_border_with_padding msk (border_rm self) False p_m0 p_m1)) (\<lambda>msk.
     reshape_3 b (h0c * w0c) (h1c * w1c) msk)))"

text \<open>
  Step 2 (lines 176 to 178). The elementwise products raise unless the mask, of shape
  [b, h0c * w0c, h1c * w1c], and the confidence matrix have one shape (the model does not
  broadcast a dimension of size 1), and the maxima raise on an empty axis.
\<close>

definition mutual_nearest ::
  "CoarseMatching \<Rightarrow> real tensor3 \<Rightarrow> nat \<Rightarrow> nat \<Rightarrow> nat \<Rightarrow> nat \<Rightarrow> data \<Rightarrow> py_error + bool tensor3" where
  "mutual_nearest self conf h0c w0c h1c w1c data =
    then_do (threshold_border self conf h0c w0c h1c w1c data) (\<lambda>msk.
    if shape3 (length conf) (h0c * w0c) (h1c * w1c) conf then
      if h0c * w0c = 0 \<or> h1c * w1c = 0 then Inl IndexError
      else Inr (and3 (and3 msk (eq_max_dim2 conf)) (eq_max_dim1 conf))
    else Inl RuntimeError)"

text \<open>
  Lines 182 to 184: in a training context (\<open>'dataset_name' in data\<close>) a sample without
  a match gets the entry (0, 0), which exists after the checks of step 2.
\<close>

definition match_mask ::
  "CoarseMatching \<Rightarrow> real tensor3 \<Rightarrow> nat \<Rightarrow> nat \<Rightarrow> nat \<Rightarrow> nat \<Rightarrow> data \<Rightarrow> py_error + bool tensor3" where
  "match_mask self conf h0c w0c h1c w1c data =
    then_do (mutual_nearest self conf h0c w0c h1c w1c data) (\<lambda>msk.
    Inr (if dataset_name data = None then msk else fill_empty msk))"

text \<open>\<open>get_coarse_match\<close>: the three steps above, the extraction and the rescaling.\<close>

definition get_coarse_match :: "CoarseMatching \<Rightarrow> real tensor3 \<Rightarrow> data \<Rightarrow> py_error + coarse_matches" where
  "get_coarse_match self conf data =
    then_do (lookup (hw0_c data)) (\<lambda>(h0c, w0c).
    then_do (lookup (hw1_c data)) (\<lambda>(h1c, w1c).
    then_do (match_mask self conf h0c w0c h1c w1c data) (\<lambda>msk.
    let (mask_v, all_j_ids) = max_dim2 msk;
        ids = where2 mask_v;
        bids = map fst ids;
        iids = map snd ids;
        jids = map (\<lambda>(b, i). all_j_ids ! b ! i) ids;
        cs = map2 (\<lambda>(b, i) j. conf ! b ! i ! j) ids jids
    in
    then_do (lookup (hw0_i data)) (\<lambda>(h0i, w0i).
    if h0c = 0 then Inl ZeroDivisionError
    else
      let scale = real h0i / real h0c in
      then_do (match_scales scale (scale0 data) bids) (\<lambda>sc0.
      then_do (match_scales scale (scale1 data) bids) (\<lambda>sc1.
      Inr \<lparr> b_ids = bids, i_ids = iids, j_ids = jids, m_bids = bids,
            mkpts0_c = keypoints iids w0c sc0, mkpts1_c = keypoints jids w1c sc1,
            mconf = cs \<rparr>))))))"

text \<open>
  \<open>forward\<close>: the exception raised, if any, and the dictionary \<open>data\<close> as the call
  leaves it. \<open>data\<close> holds the confidence matrix before the matches are extracted.
\<close>

definition forward ::
  "CoarseMatching \<Rightarrow> real tensor3 \<Rightarrow> real tensor3 \<Rightarrow> data \<Rightarrow> bool tensor2 option \<Rightarrow>
   bool tensor2 option \<Rightarrow> py_error option \<times> data" where
  "forward self feat_c0 feat_c1 data mask_c0 mask_c1 =
    (case forward_conf self feat_c0 feat_c1 mask_c0 mask_c1 of
       Inl e \<Rightarrow> (Some e, data)
     | Inr conf \<Rightarrow>
        let data = data\<lparr> conf_matrix := Some conf \<rparr> in
        (case get_coarse_match self conf data of
           Inl e \<Rightarrow> (Some e, data)
         | Inr cm \<Rightarrow> (None, data\<lparr> coarse := Some cm \<rparr>)))"

subsection \<open>Reading the result\<close>

text \<open>The matches of a result, as tuples (batch index, cell of image 0, cell of image 1, confidence).\<close>

definition matches :: "coarse_matches \<Rightarrow> (nat \<times> nat \<times> nat \<times> real) list" where
  "matches r = zip (b_ids r) (zip (i_ids r) (zip (j_ids r) (mconf r)))"

text \<open>
  The effective scale of a match of sample \<open>b\<close>: the base ratio, multiplied by the
  sample's own pair of factors when per-sample factors are supplied.
\<close>

definition effective_scale :: "real \<Rightarrow> (real \<times> real) list option \<Rightarrow> nat \<Rightarrow> real \<times> real" where
  "effective_scale base sc b =
    (case sc of None \<Rightarrow> (base, base) | Some f \<Rightarrow> (base * fst (f ! b), base * snd (f ! b)))"

definition scales_fit :: "(real \<times> real) list option \<Rightarrow> nat \<Rightarrow> bool" where
  "scales_fit sc n = (case sc of None \<Rightarrow> True | Some f \<Rightarrow> n \<le> length f)"

text \<open>
  The calls of \<open>get_coarse_match\<close> that the properties below are about: a matcher whose
  border margin is 0 (every constructed matcher, see \<open>init\<close>), a confidence matrix of
  shape [N, h0c * w0c, h1c * w1c] over non-empty coarse grids, the keys \<open>hw0_c\<close>,
  \<open>hw1_c\<close> and \<open>hw0_i\<close> (of height \<open>h0i\<close>) in \<open>data\<close>, \<open>mask1\<close> present whenever \<open>mask0\<close>
  is, and per-sample scale factors, if any, for every sample.
\<close>

definition valid_call ::
  "CoarseMatching \<Rightarrow> real tensor3 \<Rightarrow> data \<Rightarrow> nat \<Rightarrow> nat \<Rightarrow> nat \<Rightarrow> nat \<Rightarrow> nat \<Rightarrow> bool" where
  "valid_call self conf data h0c w0c h1c w1c h0i =
    (border_rm self = 0 \<and> hw0_c data = Some (h0c, w0c) \<and> hw1_c data = Some (h1c, w1c) \<and>
     shape3 (length conf) (h0c * w0c) (h1c * w1c) conf \<and> 0 < h0c * w0c \<and> 0 < h1c * w1c \<and>
     (mask0 data = None \<or> mask1 data \<noteq> None) \<and>
     map_option fst (hw0_i data) = Some h0i \<and>
     scales_fit (scale0 data) (length conf) \<and> scales_fit (scale1 data) (length conf))"

text \<open>The pairs (batch index, cell of image 0) that \<open>torch.where(mask_v)\<close> returns for a mask.\<close>

definition extracted :: "bool tensor3 \<Rightarrow> (nat \<times> nat) list" where
  "extracted msk = where2 (map (map (list_ex (\<lambda>x. x))) msk)"

subsection \<open>The confidence matrix as the specification words it\<close>

text \<open>
  The similarity of cell \<open>l\<close> of image 0 and cell \<open>s\<close> of image 1 in sample \<open>n\<close>: the
  product of the two feature vectors, each scaled by 1 / sqrt C, divided by the
  temperature, and the sentinel -1e9 where both masks are supplied and either cell is
  invalid.
\<close>

definition spec_similarity ::
  "real \<Rightarrow> real tensor3 \<Rightarrow> real tensor3 \<Rightarrow> bool tensor2 option \<Rightarrow> bool tensor2 option \<Rightarrow>
   nat \<Rightarrow> nat \<Rightarrow> nat \<Rightarrow> nat \<Rightarrow> real" where
  "spec_similarity t feat0 feat1 mask_c0 mask_c1 C n l s =
    (let product =
       (\<Sum>c<C. (feat0 ! n ! l ! c / sqrt (real C)) * (feat1 ! n ! s ! c / sqrt (real C))) / t
     in case (mask_c0, mask_c1) of
          (Some m0, Some m1) \<Rightarrow>
            if \<not> m0 ! n ! l \<or> \<not> m1 ! n ! s then - 1000000000 else product
        | _ \<Rightarrow> product)"

text \<open>
  The softmax of the similarity over the image-0 axis times its softmax over the
  image-1 axis.
\<close>

definition spec_confidence ::
  "nat \<Rightarrow> nat \<Rightarrow> (nat \<Rightarrow> nat \<Rightarrow> nat \<Rightarrow> real) \<Rightarrow> nat \<Rightarrow> nat \<Rightarrow> nat \<Rightarrow> real" where
  "spec_confidence L S sim n l s =
     (exp (sim n l s) / (\<Sum>l'<L. exp (sim n l' s))) *
     (exp (sim n l s) / (\<Sum>s'<S. exp (sim n l s')))"

text \<open>
  The masks a call may pass with features of shapes [N, L, C] and [N, S, C]: none,
  \<open>mask_c1\<close> alone, or both, of shapes [N, L] and [N, S].
\<close>

definition masks_fit ::
  "nat \<Rightarrow> nat \<Rightarrow> nat \<Rightarrow> bool tensor2 option \<Rightarrow> bool tensor2 option \<Rightarrow> bool" where
  "masks_fit N L S mask_c0 mask_c1 =
    (case mask_c0 of
       None \<Rightarrow> True
     | Some m0 \<Rightarrow>
        (case mask_c1 of None \<Rightarrow> False | Some m1 \<Rightarrow> shape2 N L m0 \<and> shape2 N S m1))"

subsection \<open>Example inputs\<close>

text \<open>
  A dual-softmax matcher as \<open>init\<close> builds it (threshold 0.2, temperature 1), and a
  \<open>data\<close> dictionary of an inference call on 8 x 8 images with the given coarse grids.
\<close>

definition demo_matcher :: CoarseMatching where
  "demo_matcher = \<lparr> thr = 1 / 5, border_rm = 0, train_coarse_percent = 2 / 5,
     train_pad_num_gt_min = 200, match_type = ''dual_softmax'', temperature = Some 1,
     has_log_optimal_transport = False, bin_score = None, skh_iters = None,
     skh_prefilter = None \<rparr>"

definition demo_sinkhorn_matcher :: CoarseMatching where
  "demo_sinkhorn_matcher = \<lparr> thr = 1 / 5, border_rm = 0, train_coarse_percent = 2 / 5,
     train_pad_num_gt_min = 200, match_type = ''sinkhorn'', temperature = None,
     has_log_optimal_transport = True, bin_score = Some 1, skh_iters = Some 3,
     skh_prefilter = Some False \<rparr>"

definition demo_config :: "string \<Rightarrow> config" where
  "demo_config mt = \<lparr> cfg_thr = Some (1 / 5), cfg_border_rm = Some 2,
     cfg_train_coarse_percent = Some (2 / 5), cfg_train_pad_num_gt_min = Some 200,
     cfg_match_type = Some mt, cfg_dsmax_temperature = Some 1,
     cfg_skh_init_bin_score = Some 1, cfg_skh_iters = Some 3,
     cfg_skh_prefilter = Some False \<rparr>"

definition demo_data :: "nat \<times> nat \<Rightarrow> nat \<times> nat \<Rightarrow> data" where
  "demo_data c0 c1 = \<lparr> hw0_i = Some (8, 8), hw1_i = Some (8, 8), hw0_c = Some c0,
     hw1_c = Some c1, mask0 = None, mask1 = None, dataset_name = None, scale0 = None,
     scale1 = None, conf_matrix = None, coarse = None \<rparr>"

section \<open>Lemmas\<close>

subsection \<open>Evaluation on concrete inputs\<close>

lemmas eval_defs = forward_def forward_conf_def similarity_def dual_softmax_def shape3_def shape2_def size1_def size2_def
  tdiv_def einsum_nlc_nsc_def dot_def softmax_dim1_def softmax_dim2_def mul3_def
  get_coarse_match_def match_mask_def mutual_nearest_def threshold_border_def
  then_do_def lookup_def gt_scalar_def reshape_5_def reshape_3_def mask_border_def
  and3_def eq_max_dim1_def eq_max_dim2_def list_max_def max_dim2_def where2_def where1_def
  first_max_def match_scales_def keypoints_def fill_empty_def set_first_def count_true_def
  masked_fill_def invert_def pair_mask_def INF_value_def Let_def
  demo_matcher_def demo_sinkhorn_matcher_def demo_data_def demo_config_def init_def

lemma demo_matcher_init: "init sg (demo_config ''dual_softmax'') = Inr demo_matcher"
  by (simp add: eval_defs)

subsection \<open>Construction\<close>

lemma init_border_rm: "init sg cfg = Inr self \<Longrightarrow> border_rm self = 0"
  by (auto simp: init_def then_do_def lookup_def Let_def
      split: sum.splits option.splits if_splits)


lemma init_dual_softmax_temperature:
  "init sg cfg = Inr self \<Longrightarrow> cfg_match_type cfg = Some ''dual_softmax'' \<Longrightarrow>
   temperature self = cfg_dsmax_temperature cfg"
  by (auto simp: init_def then_do_def lookup_def Let_def
      split: sum.splits option.splits if_splits)

subsection \<open>Tensors of a given shape\<close>

lemma shape2_length: "shape2 n l t \<Longrightarrow> length t = n"
  by (simp add: shape2_def)

lemma shape2_nth: "shape2 n l t \<Longrightarrow> i < n \<Longrightarrow> length (t ! i) = l"
  by (simp add: shape2_def list_all_length)

lemma shape3_length: "shape3 n l s t \<Longrightarrow> length t = n"
  by (simp add: shape3_def)

lemma shape3_nth: "shape3 n l s t \<Longrightarrow> i < n \<Longrightarrow> shape2 l s (t ! i)"
  by (simp add: shape3_def list_all_length)

lemma shape3_nth_length: "shape3 n l s t \<Longrightarrow> i < n \<Longrightarrow> length (t ! i) = l"
  by (auto dest: shape3_nth shape2_length)

lemma shape3_nth_nth: "shape3 n l s t \<Longrightarrow> i < n \<Longrightarrow> j < l \<Longrightarrow> length (t ! i ! j) = s"
  by (auto dest: shape3_nth shape2_nth)

lemma shape2I: "length t = n \<Longrightarrow> (\<And>i. i < n \<Longrightarrow> length (t ! i) = l) \<Longrightarrow> shape2 n l t"
  by (simp add: shape2_def list_all_length)

lemma shape3I: "length t = n \<Longrightarrow> (\<And>i. i < n \<Longrightarrow> shape2 l s (t ! i)) \<Longrightarrow> shape3 n l s t"
  by (simp add: shape3_def list_all_length)

lemma shape2_map2: "shape2 l s a \<Longrightarrow> shape2 l s b \<Longrightarrow> shape2 l s (map2 (map2 f) a b)"
  by (rule shape2I) (auto simp: shape2_length shape2_nth)

lemma nth_map2_2:
  "shape2 l s a \<Longrightarrow> shape2 l s b \<Longrightarrow> j < l \<Longrightarrow> k < s \<Longrightarrow>
   map2 (map2 f) a b ! j ! k = f (a ! j ! k) (b ! j ! k)"
  by (simp add: shape2_length shape2_nth)

lemma shape3_map2:
  "shape3 n l s a \<Longrightarrow> shape3 n l s b \<Longrightarrow> shape3 n l s (map2 (map2 (map2 f)) a b)"
  by (rule shape3I) (auto simp: shape3_length shape3_nth shape2_map2)

lemma nth_map2_3:
  "shape3 n l s a \<Longrightarrow> shape3 n l s b \<Longrightarrow> i < n \<Longrightarrow> j < l \<Longrightarrow> k < s \<Longrightarrow>
   map2 (map2 (map2 f)) a b ! i ! j ! k = f (a ! i ! j ! k) (b ! i ! j ! k)"
  using nth_map2_2 [of l s "a ! i" "b ! i" j k f]
  by (simp add: shape3_length shape3_nth)

lemma shape3_map: "shape3 n l s t \<Longrightarrow> shape3 n l s (map (map (map f)) t)"
  by (simp add: shape3_def shape2_def list_all_length)

lemma nth_map_3:
  "shape3 n l s t \<Longrightarrow> i < n \<Longrightarrow> j < l \<Longrightarrow> k < s \<Longrightarrow>
   map (map (map f)) t ! i ! j ! k = f (t ! i ! j ! k)"
  by (simp add: shape3_length shape3_nth_length shape3_nth_nth)

lemma dot_sum: "length u = c \<Longrightarrow> length v = c \<Longrightarrow> dot u v = (\<Sum>k<c. u ! k * v ! k)"
  by (simp add: dot_def sum_list_sum_nth atLeast0LessThan)

lemma shape3_einsum:
  "shape3 n l c a \<Longrightarrow> shape3 n s c b \<Longrightarrow> shape3 n l s (einsum_nlc_nsc a b)"
  unfolding einsum_nlc_nsc_def
  by (rule shape3I) (auto simp: shape3_length shape3_nth_length intro!: shape2I)

lemma nth_einsum:
  "shape3 n l c a \<Longrightarrow> shape3 n s c b \<Longrightarrow> i < n \<Longrightarrow> j < l \<Longrightarrow> k < s \<Longrightarrow>
   einsum_nlc_nsc a b ! i ! j ! k = (\<Sum>x<c. a ! i ! j ! x * b ! i ! k ! x)"
  by (simp add: einsum_nlc_nsc_def shape3_length shape3_nth_length shape3_nth_nth dot_sum)

lemma sum_list_exp: "length row = s \<Longrightarrow> sum_list (map exp row) = (\<Sum>k<s. exp (row ! k :: real))"
  by (simp add: sum_list_sum_nth atLeast0LessThan)

lemma transpose_shape2:
  assumes "shape2 l s m" "0 < l"
  shows "transpose m = map (\<lambda>k. map (\<lambda>j. m ! j ! k) [0..<l]) [0..<s]"
proof -
  have "length m = l" using assms by (simp add: shape2_length)
  moreover have "m = [] \<Longrightarrow> s = 0" using assms \<open>length m = l\<close> by auto
  moreover have "\<And>i. i < length m \<Longrightarrow> length (m ! i) = s"
    using assms by (simp add: shape2_length shape2_nth)
  ultimately show ?thesis using transpose_rectangle [of m s] by simp
qed

lemma shape3_softmax_dim2: "shape3 n l s t \<Longrightarrow> shape3 n l s (softmax_dim2 t)"
  by (simp add: softmax_dim2_def shape3_def shape2_def list_all_length)

lemma nth_softmax_dim2:
  "shape3 n l s t \<Longrightarrow> i < n \<Longrightarrow> j < l \<Longrightarrow> k < s \<Longrightarrow>
   softmax_dim2 t ! i ! j ! k = exp (t ! i ! j ! k) / (\<Sum>x<s. exp (t ! i ! j ! x))"
  by (simp add: softmax_dim2_def shape3_length shape3_nth_length shape3_nth_nth sum_list_exp)

lemma shape3_softmax_dim1: "shape3 n l s t \<Longrightarrow> 0 < l \<Longrightarrow> shape3 n l s (softmax_dim1 t)"
  unfolding softmax_dim1_def
  apply (rule shape3I)
   apply (simp add: shape3_length)
  apply (rule shape2I)
   apply (simp add: shape3_length shape3_nth_length)
  apply (simp add: shape3_length shape3_nth_length shape3_nth_nth)
  apply (subst transpose_shape2 [where l = l and s = s])
    apply (rule shape2I)
     apply (simp add: shape3_nth_length)
    apply (simp add: shape3_nth_length shape3_nth_nth)
   apply simp
  apply simp
  done

lemma nth_softmax_dim1:
  assumes "shape3 n l s t" "i < n" "j < l" "k < s"
  shows "softmax_dim1 t ! i ! j ! k = exp (t ! i ! j ! k) / (\<Sum>x<l. exp (t ! i ! x ! k))"
proof -
  let ?m = "t ! i"
  have m: "shape2 l s ?m" using assms by (simp add: shape3_nth)
  have e: "shape2 l s (map (map exp) ?m)"
    using m by (simp add: shape2_def list_all_length)
  have tr: "transpose (map (map exp) ?m) = map (\<lambda>k. map (\<lambda>j. map (map exp) ?m ! j ! k) [0..<l]) [0..<s]"
    using e assms(3) by (intro transpose_shape2) auto
  have col: "sum_list (transpose (map (map exp) ?m) ! k) = (\<Sum>x<l. exp (?m ! x ! k))"
    using assms m by (simp add: tr shape2_length shape2_nth sum_list_sum_nth atLeast0LessThan)
  have len: "length (transpose (map (map exp) ?m)) = s" by (simp add: tr)
  show ?thesis
    using assms m col len
    by (simp add: softmax_dim1_def shape3_length shape2_length shape2_nth)
qed

lemma shape3_dual_softmax:
  "shape3 n l s sim \<Longrightarrow> 0 < l \<Longrightarrow> shape3 n l s (dual_softmax sim)"
  by (simp add: dual_softmax_def mul3_def shape3_map2 shape3_softmax_dim1 shape3_softmax_dim2)

lemma nth_dual_softmax:
  "shape3 n l s sim \<Longrightarrow> i < n \<Longrightarrow> j < l \<Longrightarrow> k < s \<Longrightarrow>
   dual_softmax sim ! i ! j ! k =
     (exp (sim ! i ! j ! k) / (\<Sum>x<l. exp (sim ! i ! x ! k))) *
     (exp (sim ! i ! j ! k) / (\<Sum>x<s. exp (sim ! i ! j ! x)))"
  unfolding dual_softmax_def mul3_def
  by (subst nth_map2_3 [where n = n and l = l and s = s])
     (simp_all add: shape3_softmax_dim1 shape3_softmax_dim2 nth_softmax_dim1 nth_softmax_dim2)

lemma size1_shape3: "shape3 n l s t \<Longrightarrow> 0 < n \<Longrightarrow> size1 t = l"
  by (cases t) (auto simp: size1_def shape3_def shape2_def)

lemma size2_shape3: "shape3 n l s t \<Longrightarrow> 0 < n \<Longrightarrow> 0 < l \<Longrightarrow> size2 t = s"
  by (cases t; cases "hd t") (auto simp: size2_def size1_def shape3_def shape2_def)

lemma shape3_tdiv: "shape3 n l s t \<Longrightarrow> shape3 n l s (tdiv t c)"
  by (simp add: tdiv_def shape3_map)

lemma nth_tdiv:
  "shape3 n l s t \<Longrightarrow> i < n \<Longrightarrow> j < l \<Longrightarrow> k < s \<Longrightarrow> tdiv t c ! i ! j ! k = t ! i ! j ! k / c"
  by (simp add: tdiv_def nth_map_3)

lemma shape3_pair_mask: "shape2 n l m0 \<Longrightarrow> shape2 n s m1 \<Longrightarrow> shape3 n l s (pair_mask m0 m1)"
  unfolding pair_mask_def
  by (rule shape3I) (auto simp: shape2_length shape2_nth intro!: shape2I)

lemma nth_pair_mask:
  "shape2 n l m0 \<Longrightarrow> shape2 n s m1 \<Longrightarrow> i < n \<Longrightarrow> j < l \<Longrightarrow> k < s \<Longrightarrow>
   pair_mask m0 m1 ! i ! j ! k = (m0 ! i ! j \<and> m1 ! i ! k)"
  by (simp add: pair_mask_def shape2_length shape2_nth)

lemma shape3_masked_fill:
  "shape3 n l s t \<Longrightarrow> shape3 n l s msk \<Longrightarrow> shape3 n l s (masked_fill t msk v)"
  by (simp add: masked_fill_def shape3_map2)

lemma nth_masked_fill:
  "shape3 n l s t \<Longrightarrow> shape3 n l s msk \<Longrightarrow> i < n \<Longrightarrow> j < l \<Longrightarrow> k < s \<Longrightarrow>
   masked_fill t msk v ! i ! j ! k = (if msk ! i ! j ! k then v else t ! i ! j ! k)"
  by (simp add: masked_fill_def nth_map2_3)

lemma shape3_similarity:
  "shape3 n l c a \<Longrightarrow> shape3 n s c b \<Longrightarrow> shape3 n l s (similarity a b t)"
  unfolding similarity_def Let_def by (intro shape3_tdiv shape3_einsum [where c = c])

lemma nth_similarity:
  assumes "shape3 n l c a" "shape3 n s c b" "0 < n" "0 < l" "0 < s" "i < n" "j < l" "k < s"
  shows "similarity a b t ! i ! j ! k =
         (\<Sum>x<c. (a ! i ! j ! x / sqrt (real c)) * (b ! i ! k ! x / sqrt (real c))) / t"
proof -
  have sz: "size2 a = c" "size2 b = c" using assms by (simp_all add: size2_shape3)
  let ?e = "einsum_nlc_nsc (tdiv a (sqrt (real c))) (tdiv b (sqrt (real c)))"
  have sh: "shape3 n l s ?e"
    using assms(1,2) by (intro shape3_einsum [where c = c] shape3_tdiv)
  have "similarity a b t ! i ! j ! k = ?e ! i ! j ! k / t"
    unfolding similarity_def Let_def sz by (rule nth_tdiv [OF sh assms(6,7,8)])
  also have "?e ! i ! j ! k =
        (\<Sum>x<c. tdiv a (sqrt (real c)) ! i ! j ! x * tdiv b (sqrt (real c)) ! i ! k ! x)"
    using assms by (intro nth_einsum [where n = n and l = l and s = s]) (simp_all add: shape3_tdiv)
  also have "\<dots> = (\<Sum>x<c. (a ! i ! j ! x / sqrt (real c)) * (b ! i ! k ! x / sqrt (real c)))"
  proof (rule sum.cong)
    fix x assume "x \<in> {..<c}"
    then have x: "x < c" by simp
    show "tdiv a (sqrt (real c)) ! i ! j ! x * tdiv b (sqrt (real c)) ! i ! k ! x =
          (a ! i ! j ! x / sqrt (real c)) * (b ! i ! k ! x / sqrt (real c))"
      by (simp only: nth_tdiv [OF assms(1) assms(6) assms(7) x] nth_tdiv [OF assms(2) assms(6) assms(8) x])
  qed simp
  finally show ?thesis .
qed

subsection \<open>The confidence matrix of forward\<close>

lemma forward_conf_masked:
  assumes t: "temperature self = Some t"
    and f0: "shape3 N L C feat_c0" and f1: "shape3 N S C feat_c1"
    and pos: "0 < N" "0 < L" "0 < S"
    and fit: "masks_fit N L S mask_c0 mask_c1"
  shows "\<exists>sim. forward_conf self feat_c0 feat_c1 mask_c0 mask_c1 = Inr (dual_softmax sim) \<and>
           shape3 N L S sim \<and>
           (\<forall>n<N. \<forall>l<L. \<forall>s<S.
              sim ! n ! l ! s = spec_similarity t feat_c0 feat_c1 mask_c0 mask_c1 C n l s)"
proof -
  have sz: "length feat_c0 = N" "size1 feat_c0 = L" "size1 feat_c1 = S" "size2 feat_c0 = C"
    using f0 f1 pos by (simp_all add: shape3_length size1_shape3 size2_shape3)
  let ?sim = "similarity feat_c0 feat_c1 t"
  have sh: "shape3 N L S ?sim" using f0 f1 by (rule shape3_similarity)
  have ent: "\<And>n l s. n < N \<Longrightarrow> l < L \<Longrightarrow> s < S \<Longrightarrow> ?sim ! n ! l ! s =
      (\<Sum>c<C. (feat_c0 ! n ! l ! c / sqrt (real C)) * (feat_c1 ! n ! s ! c / sqrt (real C))) / t"
    using f0 f1 pos by (rule nth_similarity)
  show ?thesis
  proof (cases mask_c0)
    case None
    have "forward_conf self feat_c0 feat_c1 mask_c0 mask_c1 = Inr (dual_softmax ?sim)"
      using t f0 f1 None by (simp add: forward_conf_def sz)
    moreover have "\<forall>n<N. \<forall>l<L. \<forall>s<S.
        ?sim ! n ! l ! s = spec_similarity t feat_c0 feat_c1 mask_c0 mask_c1 C n l s"
      using None by (simp add: spec_similarity_def ent)
    ultimately show ?thesis using sh by blast
  next
    case (Some m0)
    then obtain m1 where m1: "mask_c1 = Some m1" and s0: "shape2 N L m0" and s1: "shape2 N S m1"
      using fit by (auto simp: masks_fit_def split: option.splits)
    let ?msk = "invert (pair_mask m0 m1)"
    let ?sim' = "masked_fill ?sim ?msk (- INF_value)"
    have pm: "shape3 N L S (pair_mask m0 m1)" using s0 s1 by (rule shape3_pair_mask)
    have shm: "shape3 N L S ?msk" using pm by (simp add: invert_def shape3_map)
    have entm: "\<And>n l s. n < N \<Longrightarrow> l < L \<Longrightarrow> s < S \<Longrightarrow> ?msk ! n ! l ! s = (\<not> (m0 ! n ! l \<and> m1 ! n ! s))"
      using pm s0 s1 by (simp add: invert_def nth_map_3 [where n = N and l = L and s = S] nth_pair_mask [where n = N and l = L and s = S])
    have "forward_conf self feat_c0 feat_c1 mask_c0 mask_c1 = Inr (dual_softmax ?sim')"
      using t f0 f1 Some m1 s0 s1 by (simp add: forward_conf_def sz)
    moreover have "shape3 N L S ?sim'" using sh shm by (rule shape3_masked_fill)
    moreover have "\<forall>n<N. \<forall>l<L. \<forall>s<S.
        ?sim' ! n ! l ! s = spec_similarity t feat_c0 feat_c1 mask_c0 mask_c1 C n l s"
      using Some m1 sh shm
      by (simp add: spec_similarity_def ent entm nth_masked_fill [where n = N and l = L and s = S] INF_value_def)
    ultimately show ?thesis by blast
  qed
qed

lemma spec_confidence_cong:
  "(\<And>l s. l < L \<Longrightarrow> s < S \<Longrightarrow> f n l s = g n l s) \<Longrightarrow> l < L \<Longrightarrow> s < S \<Longrightarrow>
   spec_confidence L S f n l s = spec_confidence L S g n l s"
  by (simp add: spec_confidence_def)

lemma forward_conf_entries:
  assumes t: "temperature self = Some t"
    and f0: "shape3 N L C feat_c0" and f1: "shape3 N S C feat_c1"
    and pos: "0 < N" "0 < L" "0 < S"
    and fit: "masks_fit N L S mask_c0 mask_c1"
  shows "\<exists>conf. forward_conf self feat_c0 feat_c1 mask_c0 mask_c1 = Inr conf \<and>
           shape3 N L S conf \<and>
           (\<forall>n<N. \<forall>l<L. \<forall>s<S. conf ! n ! l ! s =
              spec_confidence L S (spec_similarity t feat_c0 feat_c1 mask_c0 mask_c1 C) n l s)"
proof -
  from forward_conf_masked [OF assms] obtain sim where
    fc: "forward_conf self feat_c0 feat_c1 mask_c0 mask_c1 = Inr (dual_softmax sim)"
    and sh: "shape3 N L S sim"
    and ent: "\<And>n l s. n < N \<Longrightarrow> l < L \<Longrightarrow> s < S \<Longrightarrow>
              sim ! n ! l ! s = spec_similarity t feat_c0 feat_c1 mask_c0 mask_c1 C n l s"
    by blast
  have "dual_softmax sim ! n ! l ! s =
        spec_confidence L S (spec_similarity t feat_c0 feat_c1 mask_c0 mask_c1 C) n l s"
    if "n < N" "l < L" "s < S" for n l s
    using that sh by (simp add: nth_dual_softmax [where n = N and l = L and s = S] spec_confidence_def ent)
  then show ?thesis using fc sh pos by (auto simp: shape3_dual_softmax)
qed



lemma forward_conf_matrix:
  "forward_conf self feat_c0 feat_c1 mask_c0 mask_c1 = Inr conf \<Longrightarrow>
   conf_matrix (snd (forward self feat_c0 feat_c1 data mask_c0 mask_c1)) = Some conf"
  by (simp add: forward_def Let_def split: sum.split)

subsection \<open>Reshaping, thresholding and border masking with margin 0\<close>

lemma length_chunk_n: "length (chunk_n n k xs) = n"
  by (induction n arbitrary: xs) simp_all

lemma concat_chunk_n: "n * k \<le> length xs \<Longrightarrow> concat (chunk_n n k xs) = take (n * k) xs"
proof (induction n arbitrary: xs)
  case 0
  then show ?case by simp
next
  case (Suc n)
  have "n * k \<le> length (drop k xs)" using Suc.prems by simp
  then have "concat (chunk_n n k (drop k xs)) = take (n * k) (drop k xs)" by (rule Suc.IH)
  then show ?case by (simp add: take_add [symmetric] add.commute)
qed

lemma concat_chunk_n_eq: "length xs = n * k \<Longrightarrow> concat (chunk_n n k xs) = xs"
  by (simp add: concat_chunk_n)

lemma chunk_n_lengths:
  "n * k \<le> length xs \<Longrightarrow> ys \<in> set (chunk_n n k xs) \<Longrightarrow> length ys = k"
proof (induction n arbitrary: xs)
  case 0
  then show ?case by simp
next
  case (Suc n)
  have k: "k \<le> length xs" using Suc.prems(1) by simp
  have "n * k \<le> length (drop k xs)" using Suc.prems(1) by simp
  then show ?case using Suc.IH [of "drop k xs"] Suc.prems(2) k by auto
qed

lemma chunk_n_concat:
  "length xss = n \<Longrightarrow> list_all (\<lambda>r. length r = k) xss \<Longrightarrow> chunk_n n k (concat xss) = xss"
  by (induction xss arbitrary: n) auto

lemma length_concat_const:
  "list_all (\<lambda>r. length r = k) xss \<Longrightarrow> length (concat xss) = length xss * k"
  by (induction xss) auto

lemma concat_map_id: "(\<And>x. x \<in> set xs \<Longrightarrow> concat (f x) = x) \<Longrightarrow> concat (map concat (map f xs)) = concat xs"
  by (induction xs) auto

lemma concat_concat_map: "concat (concat xss) = concat (map concat xss)"
  by (induction xss) auto

lemma flatten_grid:
  assumes "length g = h0 * (w0 * (h1 * w1))"
  shows "concat (concat (concat
           (map (\<lambda>r. map (chunk_n h1 w1) (chunk_n w0 (h1 * w1) r)) (chunk_n h0 (w0 * (h1 * w1)) g)))) = g"
proof -
  let ?rows = "chunk_n h0 (w0 * (h1 * w1)) g"
  have rows: "\<And>r. r \<in> set ?rows \<Longrightarrow> length r = w0 * (h1 * w1)"
    using assms by (auto dest!: chunk_n_lengths [rotated])
  have inner: "concat (concat (map (chunk_n h1 w1) (chunk_n w0 (h1 * w1) r))) = r"
    if "r \<in> set ?rows" for r
  proof -
    have len: "length r = w0 * (h1 * w1)" using that by (rule rows)
    have cells: "\<And>c. c \<in> set (chunk_n w0 (h1 * w1) r) \<Longrightarrow> length c = h1 * w1"
      using len by (auto dest!: chunk_n_lengths [rotated])
    have "concat (concat (map (chunk_n h1 w1) (chunk_n w0 (h1 * w1) r))) =
          concat (map concat (map (chunk_n h1 w1) (chunk_n w0 (h1 * w1) r)))"
      by (simp add: concat_concat_map)
    also have "\<dots> = concat (chunk_n w0 (h1 * w1) r)"
      using cells by (intro concat_map_id) (simp add: concat_chunk_n_eq)
    also have "\<dots> = r" using len by (simp add: concat_chunk_n_eq)
    finally show ?thesis .
  qed
  have "concat (concat (concat (map (\<lambda>r. map (chunk_n h1 w1) (chunk_n w0 (h1 * w1) r)) ?rows))) =
        concat (map (\<lambda>r. concat (concat (map (chunk_n h1 w1) (chunk_n w0 (h1 * w1) r)))) ?rows)"
    by (simp add: concat_concat_map comp_def)
  also have "\<dots> = concat (map (\<lambda>r. r) ?rows)"
    using inner by (intro arg_cong [where f = concat] map_cong) simp_all
  also have "\<dots> = g" using assms by (simp add: concat_chunk_n_eq)
  finally show ?thesis .
qed

lemma shape2_concat_length:
  assumes "shape2 l s m"
  shows "length (concat m) = l * s"
proof -
  have "list_all (\<lambda>r. length r = s) m" using assms by (simp add: shape2_def)
  then have "length (concat m) = length m * s" by (rule length_concat_const)
  then show ?thesis using assms by (simp only: shape2_length)
qed

lemma shape3_flat_length:
  assumes "shape3 b l s t"
  shows "length (concat (concat t)) = b * (l * s)"
proof -
  have "list_all (\<lambda>r. length r = l * s) (map concat t)"
    using assms by (simp add: shape3_def list_all_length shape2_concat_length)
  then have "length (concat (map concat t)) = length (map concat t) * (l * s)"
    by (rule length_concat_const)
  then show ?thesis using assms by (simp add: concat_concat_map shape3_length)
qed

lemma chunk_flat_shape3:
  assumes "shape3 b l s t"
  shows "map (chunk_n l s) (chunk_n b (l * s) (concat (concat t))) = t"
proof -
  have all: "list_all (\<lambda>r. length r = l * s) (map concat t)"
    using assms by (simp add: shape3_def list_all_length shape2_concat_length)
  have "chunk_n b (l * s) (concat (map concat t)) = map concat t"
    using assms all by (intro chunk_n_concat) (simp_all add: shape3_length)
  then have "map (chunk_n l s) (chunk_n b (l * s) (concat (concat t))) =
             map (\<lambda>m. chunk_n l s (concat m)) t"
    by (simp add: concat_concat_map comp_def)
  also have "\<dots> = map (\<lambda>m. m) t"
  proof (rule map_cong [OF refl])
    fix m assume "m \<in> set t"
    then have "shape2 l s m" using assms by (auto simp: shape3_def list_all_iff)
    then show "chunk_n l s (concat m) = m"
      by (intro chunk_n_concat) (simp_all add: shape2_def)
  qed
  finally show ?thesis by simp
qed

lemma reshape_roundtrip:
  assumes "shape3 b (h0 * w0) (h1 * w1) t"
  shows "\<exists>g. reshape_5 b h0 w0 h1 w1 t = Inr g \<and> reshape_3 b (h0 * w0) (h1 * w1) g = Inr t"
proof -
  let ?flat = "concat (concat t)"
  let ?M = "h0 * (w0 * (h1 * w1))"
  let ?G = "\<lambda>g. map (\<lambda>r. map (chunk_n h1 w1) (chunk_n w0 (h1 * w1) r)) (chunk_n h0 (w0 * (h1 * w1)) g)"
  let ?g = "map ?G (chunk_n b ?M ?flat)"
  have M: "?M = (h0 * w0) * (h1 * w1)" by (simp add: mult.assoc)
  have len: "length ?flat = b * ?M"
    using shape3_flat_length [OF assms] by (simp only: M)
  have r5: "reshape_5 b h0 w0 h1 w1 t = Inr ?g"
    using len by (simp add: reshape_5_def Let_def)
  have chunks: "\<And>c. c \<in> set (chunk_n b ?M ?flat) \<Longrightarrow> length c = ?M"
    using len by (auto dest!: chunk_n_lengths [rotated])
  have "concat (concat (concat (concat ?g))) =
        concat (map (\<lambda>c. concat (concat (concat (?G c)))) (chunk_n b ?M ?flat))"
    by (simp add: concat_concat_map comp_def)
  also have "\<dots> = concat (map (\<lambda>c. c) (chunk_n b ?M ?flat))"
    using chunks by (intro arg_cong [where f = concat] map_cong) (simp_all add: flatten_grid)
  also have "\<dots> = ?flat" using len by (simp add: concat_chunk_n_eq)
  finally have flat: "concat (concat (concat (concat ?g))) = ?flat" .
  have "reshape_3 b (h0 * w0) (h1 * w1) ?g = Inr t"
    unfolding reshape_3_def Let_def flat
    using shape3_flat_length [OF assms] chunk_flat_shape3 [OF assms] by simp
  then show ?thesis using r5 by blast
qed

lemma shape3_gt_scalar: "shape3 n l s t \<Longrightarrow> shape3 n l s (gt_scalar t c)"
  by (simp add: gt_scalar_def shape3_map)

lemma nth_gt_scalar:
  "shape3 n l s t \<Longrightarrow> i < n \<Longrightarrow> j < l \<Longrightarrow> k < s \<Longrightarrow> gt_scalar t c ! i ! j ! k = (c < t ! i ! j ! k)"
  by (simp add: gt_scalar_def nth_map_3)

lemma threshold_border_zero:
  assumes "border_rm self = 0"
    and "shape3 (length conf) (h0c * w0c) (h1c * w1c) conf"
    and "mask0 data = None \<or> mask1 data \<noteq> None"
  shows "threshold_border self conf h0c w0c h1c w1c data = Inr (gt_scalar conf (thr self))"
proof -
  let ?m = "gt_scalar conf (thr self)"
  have len: "length ?m = length conf" by (simp add: gt_scalar_def)
  have "shape3 (length conf) (h0c * w0c) (h1c * w1c) ?m"
    using assms(2) by (rule shape3_gt_scalar)
  from reshape_roundtrip [OF this] obtain g where
    g: "reshape_5 (length conf) h0c w0c h1c w1c ?m = Inr g"
       "reshape_3 (length conf) (h0c * w0c) (h1c * w1c) g = Inr ?m"
    by blast
  show ?thesis
    using assms(1,3) g
    by (auto simp: threshold_border_def Let_def len then_do_def lookup_def mask_border_def
        mask_border_with_padding_def split: option.splits)
qed

subsection \<open>The mutual-nearest filter\<close>

lemma list_max_Max: "xs \<noteq> [] \<Longrightarrow> list_max xs = Max (set xs)"
  by (cases xs) (simp_all add: list_max_def Max.set_eq_fold [symmetric])


lemma list_max_in: "xs \<noteq> [] \<Longrightarrow> list_max xs \<in> set xs"
  by (simp add: list_max_Max)

lemma shape3_eq_max_dim2: "shape3 n l s t \<Longrightarrow> shape3 n l s (eq_max_dim2 t)"
  by (simp add: eq_max_dim2_def shape3_def shape2_def list_all_length)

lemma nth_eq_max_dim2:
  "shape3 n l s t \<Longrightarrow> i < n \<Longrightarrow> j < l \<Longrightarrow> k < s \<Longrightarrow>
   eq_max_dim2 t ! i ! j ! k = (t ! i ! j ! k = list_max (t ! i ! j))"
  by (simp add: eq_max_dim2_def shape3_length shape3_nth_length shape3_nth_nth)

lemma transpose_column:
  assumes "shape2 l s m" "0 < l" "k < s"
  shows "transpose m ! k = map (\<lambda>row. row ! k) m"
proof -
  have "transpose m ! k = map (\<lambda>j. m ! j ! k) [0..<l]"
    using assms by (simp add: transpose_shape2)
  also have "\<dots> = map (\<lambda>row. row ! k) m"
    using assms(1) by (intro nth_equalityI) (simp_all add: shape2_length)
  finally show ?thesis .
qed

lemma length_transpose_shape2: "shape2 l s m \<Longrightarrow> 0 < l \<Longrightarrow> length (transpose m) = s"
  by (simp add: transpose_shape2)

lemma shape3_eq_max_dim1:
  assumes "shape3 n l s t" "0 < l"
  shows "shape3 n l s (eq_max_dim1 t)"
proof (rule shape3I)
  show "length (eq_max_dim1 t) = n" using assms by (simp add: eq_max_dim1_def shape3_length)
next
  fix i assume i: "i < n"
  have m: "shape2 l s (t ! i)" using assms i by (simp add: shape3_nth)
  show "shape2 l s (eq_max_dim1 t ! i)"
    using assms i m
    by (intro shape2I)
       (simp_all add: eq_max_dim1_def shape3_length shape2_length shape2_nth
          length_transpose_shape2 [OF m assms(2)])
qed

lemma nth_eq_max_dim1:
  assumes "shape3 n l s t" "i < n" "j < l" "k < s"
  shows "eq_max_dim1 t ! i ! j ! k = (t ! i ! j ! k = list_max (map (\<lambda>row. row ! k) (t ! i)))"
proof -
  have m: "shape2 l s (t ! i)" using assms by (simp add: shape3_nth)
  have l: "0 < l" using assms by simp
  show ?thesis
    using assms m
    by (simp add: eq_max_dim1_def shape3_length shape2_length shape2_nth
        length_transpose_shape2 [OF m l] transpose_column [OF m l])
qed

lemma shape3_and3: "shape3 n l s a \<Longrightarrow> shape3 n l s b \<Longrightarrow> shape3 n l s (and3 a b)"
  by (simp add: and3_def shape3_map2)

lemma nth_and3:
  "shape3 n l s a \<Longrightarrow> shape3 n l s b \<Longrightarrow> i < n \<Longrightarrow> j < l \<Longrightarrow> k < s \<Longrightarrow>
   and3 a b ! i ! j ! k = (a ! i ! j ! k \<and> b ! i ! j ! k)"
  by (simp add: and3_def nth_map2_3)

lemma mutual_nearest_entries:
  assumes bd: "border_rm self = 0"
    and sh: "shape3 (length conf) (h0c * w0c) (h1c * w1c) conf"
    and pos: "0 < h0c * w0c" "0 < h1c * w1c"
    and pm: "mask0 data = None \<or> mask1 data \<noteq> None"
  shows "\<exists>mn. mutual_nearest self conf h0c w0c h1c w1c data = Inr mn \<and>
           shape3 (length conf) (h0c * w0c) (h1c * w1c) mn \<and>
           (\<forall>i<length conf. \<forall>j<h0c * w0c. \<forall>k<h1c * w1c.
              mn ! i ! j ! k =
                (thr self < conf ! i ! j ! k \<and>
                 conf ! i ! j ! k = list_max (conf ! i ! j) \<and>
                 conf ! i ! j ! k = list_max (map (\<lambda>row. row ! k) (conf ! i))))"
proof -
  let ?N = "length conf" and ?L = "h0c * w0c" and ?S = "h1c * w1c"
  let ?c = "gt_scalar conf (thr self)"
  let ?mn = "and3 (and3 ?c (eq_max_dim2 conf)) (eq_max_dim1 conf)"
  have tb: "threshold_border self conf h0c w0c h1c w1c data = Inr ?c"
    using bd sh pm by (rule threshold_border_zero)
  have mn: "mutual_nearest self conf h0c w0c h1c w1c data = Inr ?mn"
    using sh pos by (simp add: mutual_nearest_def tb then_do_def)
  have s1: "shape3 ?N ?L ?S ?c" using sh by (rule shape3_gt_scalar)
  have s2: "shape3 ?N ?L ?S (eq_max_dim2 conf)" using sh by (rule shape3_eq_max_dim2)
  have s3: "shape3 ?N ?L ?S (eq_max_dim1 conf)" using sh pos(1) by (rule shape3_eq_max_dim1)
  have s12: "shape3 ?N ?L ?S (and3 ?c (eq_max_dim2 conf))" using s1 s2 by (rule shape3_and3)
  have smn: "shape3 ?N ?L ?S ?mn" using s12 s3 by (rule shape3_and3)
  have "?mn ! i ! j ! k =
          (thr self < conf ! i ! j ! k \<and>
           conf ! i ! j ! k = list_max (conf ! i ! j) \<and>
           conf ! i ! j ! k = list_max (map (\<lambda>row. row ! k) (conf ! i)))"
    if "i < ?N" "j < ?L" "k < ?S" for i j k
    using that
    by (simp add: nth_and3 [OF s12 s3] nth_and3 [OF s1 s2] nth_gt_scalar [OF sh]
        nth_eq_max_dim2 [OF sh] nth_eq_max_dim1 [OF sh])
  then show ?thesis using mn smn by blast
qed

subsection \<open>Index extraction\<close>

lemma where1_snoc: "where1 (r @ [x]) = where1 r @ (if x then [length r] else [])"
  by (simp add: where1_def enumerate_append_eq)

lemma where2_snoc: "where2 (t @ [r]) = where2 t @ map (Pair (length t)) (where1 r)"
  by (simp add: where2_def enumerate_append_eq)

lemma where1_Nil: "where1 [] = []"
  by (simp add: where1_def)

lemma where2_Nil: "where2 [] = []"
  by (simp add: where2_def)

lemma set_where1: "set (where1 r) = {i. i < length r \<and> r ! i}"
proof (induction r rule: rev_induct)
  case Nil
  then show ?case by (simp add: where1_Nil)
next
  case (snoc x r)
  have "{i. i < length (r @ [x]) \<and> (r @ [x]) ! i} =
        {i. i < length r \<and> r ! i} \<union> (if x then {length r} else {})"
    by (auto simp: nth_append less_Suc_eq)
  then show ?case using snoc by (simp add: where1_snoc)
qed

lemma distinct_where1: "distinct (where1 r)"
proof (induction r rule: rev_induct)
  case Nil
  then show ?case by (simp add: where1_Nil)
next
  case (snoc x r)
  then show ?case by (simp add: where1_snoc set_where1)
qed

lemma first_true:
  "list_ex (\<lambda>x. x) r \<Longrightarrow>
   length (takeWhile Not r) < length r \<and> r ! length (takeWhile Not r) \<and>
   (\<forall>k<length (takeWhile Not r). \<not> r ! k)"
proof (induction r)
  case Nil
  then show ?case by simp
next
  case (Cons a r)
  show ?case
  proof (cases a)
    case True
    then show ?thesis by simp
  next
    case False
    then have "list_ex (\<lambda>x. x) r" using Cons.prems by simp
    then have ih: "length (takeWhile Not r) < length r" "r ! length (takeWhile Not r)"
      "\<And>k. k < length (takeWhile Not r) \<Longrightarrow> \<not> r ! k"
      using Cons.IH by blast+
    have "\<not> (a # r) ! k" if "k < Suc (length (takeWhile Not r))" for k
      using that False ih(3) by (cases k) simp_all
    then show ?thesis using False ih(1,2) by simp
  qed
qed

lemma first_max_props:
  "list_ex (\<lambda>x. x) r \<Longrightarrow>
   first_max r < length r \<and> r ! first_max r \<and> (\<forall>k<first_max r. \<not> r ! k)"
  using first_true [of r] by (simp add: first_max_def)

lemma set_where2: "set (where2 t) = {(b, i). b < length t \<and> i < length (t ! b) \<and> t ! b ! i}"
proof (induction t rule: rev_induct)
  case Nil
  then show ?case by (simp add: where2_Nil)
next
  case (snoc r t)
  have "{(b, i). b < length (t @ [r]) \<and> i < length ((t @ [r]) ! b) \<and> (t @ [r]) ! b ! i} =
        {(b, i). b < length t \<and> i < length (t ! b) \<and> t ! b ! i} \<union>
        Pair (length t) ` {i. i < length r \<and> r ! i}"
    by (auto simp: nth_append less_Suc_eq)
  then show ?case using snoc by (simp add: where2_snoc set_where1)
qed

lemma distinct_where2: "distinct (where2 t)"
proof (induction t rule: rev_induct)
  case Nil
  then show ?case by (simp add: where2_Nil)
next
  case (snoc r t)
  have "distinct (map (Pair (length t)) (where1 r))"
    by (simp add: distinct_map distinct_where1 inj_on_def)
  moreover have "set (where2 t) \<inter> set (map (Pair (length t)) (where1 r)) = {}"
    by (auto simp: set_where2)
  ultimately show ?case using snoc by (simp add: where2_snoc)
qed

lemma filter_where2:
  "n < length t \<Longrightarrow> filter (\<lambda>p. fst p = n) (where2 t) = map (Pair n) (where1 (t ! n))"
proof (induction t rule: rev_induct)
  case Nil
  then show ?case by simp
next
  case (snoc r t)
  show ?case
  proof (cases "n < length t")
    case True
    then have "filter (\<lambda>p. fst p = n) (map (Pair (length t)) (where1 r)) = []"
      by (simp add: filter_empty_conv)
    then show ?thesis using True snoc.IH by (simp add: where2_snoc nth_append)
  next
    case False
    then have n: "n = length t" using snoc.prems by simp
    have "filter (\<lambda>p. fst p = n) (where2 t) = []"
      by (auto simp: filter_empty_conv set_where2 n)
    moreover have "filter (\<lambda>p. fst p = n) (map (Pair (length t)) (where1 r)) = map (Pair n) (where1 r)"
      by (simp add: n filter_map comp_def)
    ultimately show ?thesis by (simp add: where2_snoc n)
  qed
qed

lemma extracted_set:
  assumes "shape3 n l s msk"
  shows "set (extracted msk) = {(b, i). b < n \<and> i < l \<and> list_ex (\<lambda>x. x) (msk ! b ! i)}"
  using assms
  by (auto simp: extracted_def set_where2 shape3_length shape3_nth_length)

lemma match_scales_fit:
  assumes "scales_fit sc n" "list_all (\<lambda>b. b < n) bs"
  shows "match_scales base sc bs = Inr (map (effective_scale base sc) bs)"
proof (cases sc)
  case None
  then show ?thesis by (simp add: match_scales_def effective_scale_def)
next
  case (Some f)
  then have "n \<le> length f" using assms(1) by (simp add: scales_fit_def)
  then have "list_all (\<lambda>b. b < length f) bs"
    using assms(2) by (auto simp: list_all_iff)
  then show ?thesis using Some by (simp add: match_scales_def effective_scale_def)
qed

lemma map2_map_same: "map2 f xs (map g xs) = map (\<lambda>x. f x (g x)) xs"
  by (induction xs) simp_all

lemma get_coarse_match_extract:
  assumes v: "valid_call self conf data h0c w0c h1c w1c h0i"
    and mm: "match_mask self conf h0c w0c h1c w1c data = Inr msk"
    and sh: "shape3 (length conf) (h0c * w0c) (h1c * w1c) msk"
  shows "get_coarse_match self conf data =
    Inr \<lparr> b_ids = map fst (extracted msk),
          i_ids = map snd (extracted msk),
          j_ids = map (\<lambda>(b, i). first_max (msk ! b ! i)) (extracted msk),
          m_bids = map fst (extracted msk),
          mkpts0_c = keypoints (map snd (extracted msk)) w0c
             (map (effective_scale (real h0i / real h0c) (scale0 data)) (map fst (extracted msk))),
          mkpts1_c = keypoints (map (\<lambda>(b, i). first_max (msk ! b ! i)) (extracted msk)) w1c
             (map (effective_scale (real h0i / real h0c) (scale1 data)) (map fst (extracted msk))),
          mconf = map (\<lambda>(b, i). conf ! b ! i ! first_max (msk ! b ! i)) (extracted msk) \<rparr>"
proof -
  let ?ids = "extracted msk"
  let ?jf = "\<lambda>(b, i). first_max (msk ! b ! i)"
  have c0: "hw0_c data = Some (h0c, w0c)" and c1: "hw1_c data = Some (h1c, w1c)"
    and h0c: "h0c \<noteq> 0"
    and f0: "scales_fit (scale0 data) (length conf)"
    and f1: "scales_fit (scale1 data) (length conf)"
    using v by (auto simp: valid_call_def)
  obtain w0i where hi: "hw0_i data = Some (h0i, w0i)"
    using v by (cases "hw0_i data") (auto simp: valid_call_def)
  have rng: "\<And>b i. (b, i) \<in> set ?ids \<Longrightarrow> b < length msk \<and> i < length (msk ! b)"
    using sh by (auto simp: extracted_set [OF sh] shape3_length shape3_nth_length)
  have js: "map (\<lambda>(b, i). map (map first_max) msk ! b ! i) ?ids = map ?jf ?ids"
    using rng by (intro map_cong) auto
  have bs: "list_all (\<lambda>b. b < length conf) (map fst ?ids)"
    using sh by (auto simp: list_all_iff extracted_set [OF sh])
  have sc0: "match_scales (real h0i / real h0c) (scale0 data) (map fst ?ids) =
             Inr (map (effective_scale (real h0i / real h0c) (scale0 data)) (map fst ?ids))"
    using f0 bs by (rule match_scales_fit)
  have sc1: "match_scales (real h0i / real h0c) (scale1 data) (map fst ?ids) =
             Inr (map (effective_scale (real h0i / real h0c) (scale1 data)) (map fst ?ids))"
    using f1 bs by (rule match_scales_fit)
  have cs: "map2 (\<lambda>(b, i). (!) (conf ! b ! i)) ?ids (map ?jf ?ids) =
            map (\<lambda>(b, i). conf ! b ! i ! first_max (msk ! b ! i)) ?ids"
    by (simp add: map2_map_same case_prod_beta)
  show ?thesis
    unfolding get_coarse_match_def
    by (simp add: c0 c1 hi h0c mm then_do_def lookup_def max_dim2_def Let_def
        extracted_def [symmetric] js sc0 sc1 cs)
qed

lemma count_true_zero: "(count_true r = 0) = list_all Not r"
  by (simp add: count_true_def filter_empty_conv list_all_iff)

lemma shape2_set_first: "shape2 l s m \<Longrightarrow> shape2 l s (set_first m)"
  by (cases "0 < l") (auto simp: set_first_def shape2_def list_all_length nth_list_update)

lemma nth_set_first:
  "shape2 l s m \<Longrightarrow> j < l \<Longrightarrow> k < s \<Longrightarrow>
   set_first m ! j ! k = ((j = 0 \<and> k = 0) \<or> m ! j ! k)"
  by (auto simp: set_first_def shape2_def list_all_length nth_list_update)

lemma shape3_fill_empty: "shape3 n l s t \<Longrightarrow> shape3 n l s (fill_empty t)"
  by (simp add: fill_empty_def shape3_def list_all_length shape2_set_first)

lemma nth_fill_empty:
  "i < length t \<Longrightarrow>
   fill_empty t ! i = (if count_true (concat (t ! i)) = 0 then set_first (t ! i) else t ! i)"
  by (simp add: fill_empty_def)

lemma match_mask_valid:
  assumes v: "valid_call self conf data h0c w0c h1c w1c h0i"
  shows "\<exists>mn. mutual_nearest self conf h0c w0c h1c w1c data = Inr mn \<and>
           shape3 (length conf) (h0c * w0c) (h1c * w1c) mn \<and>
           (\<forall>i<length conf. \<forall>j<h0c * w0c. \<forall>k<h1c * w1c.
              mn ! i ! j ! k =
                (thr self < conf ! i ! j ! k \<and>
                 conf ! i ! j ! k = list_max (conf ! i ! j) \<and>
                 conf ! i ! j ! k = list_max (map (\<lambda>row. row ! k) (conf ! i)))) \<and>
           match_mask self conf h0c w0c h1c w1c data =
             Inr (if dataset_name data = None then mn else fill_empty mn) \<and>
           shape3 (length conf) (h0c * w0c) (h1c * w1c)
             (if dataset_name data = None then mn else fill_empty mn)"
proof -
  have bd: "border_rm self = 0"
    and sh: "shape3 (length conf) (h0c * w0c) (h1c * w1c) conf"
    and pos: "0 < h0c * w0c" "0 < h1c * w1c"
    and pm: "mask0 data = None \<or> mask1 data \<noteq> None"
    using v by (simp_all add: valid_call_def)
  from mutual_nearest_entries [OF bd sh pos pm] obtain mn where
    mn: "mutual_nearest self conf h0c w0c h1c w1c data = Inr mn"
    and smn: "shape3 (length conf) (h0c * w0c) (h1c * w1c) mn"
    and ent: "\<forall>i<length conf. \<forall>j<h0c * w0c. \<forall>k<h1c * w1c.
              mn ! i ! j ! k =
                (thr self < conf ! i ! j ! k \<and>
                 conf ! i ! j ! k = list_max (conf ! i ! j) \<and>
                 conf ! i ! j ! k = list_max (map (\<lambda>row. row ! k) (conf ! i)))"
    by blast
  have "match_mask self conf h0c w0c h1c w1c data =
          Inr (if dataset_name data = None then mn else fill_empty mn)"
    by (simp add: match_mask_def mn then_do_def)
  moreover have "shape3 (length conf) (h0c * w0c) (h1c * w1c)
          (if dataset_name data = None then mn else fill_empty mn)"
    using smn by (simp add: shape3_fill_empty)
  ultimately show ?thesis using mn smn ent by blast
qed

lemma extracted_nth:
  assumes sh: "shape3 n l s msk" and k: "k < length (extracted msk)"
    and e: "extracted msk ! k = (b, i)"
  shows "b < n \<and> i < l \<and> first_max (msk ! b ! i) < s \<and> msk ! b ! i ! first_max (msk ! b ! i) \<and>
         (\<forall>x<first_max (msk ! b ! i). \<not> msk ! b ! i ! x)"
proof -
  have "(b, i) \<in> set (extracted msk)" using k e by (metis nth_mem)
  then have bi: "b < n" "i < l" "list_ex (\<lambda>x. x) (msk ! b ! i)"
    by (simp_all add: extracted_set [OF sh])
  have "length (msk ! b ! i) = s" using sh bi by (simp add: shape3_nth_nth)
  then show ?thesis using first_max_props [OF bi(3)] bi by simp
qed

lemma distinct_extracted: "distinct (extracted msk)"
  by (simp add: extracted_def distinct_where2)

lemma nth_keypoints:
  "k < length ids \<Longrightarrow> length scales = length ids \<Longrightarrow>
   keypoints ids w scales ! k =
     (real (ids ! k mod w) * fst (scales ! k), real (ids ! k div w) * snd (scales ! k))"
  by (simp add: keypoints_def)

lemma length_keypoints: "length scales = length ids \<Longrightarrow> length (keypoints ids w scales) = length ids"
  by (simp add: keypoints_def)

lemma zip4_maps:
  "zip (map f xs) (zip (map g xs) (zip (map h xs) (map c xs))) = map (\<lambda>x. (f x, g x, h x, c x)) xs"
  by (induction xs) simp_all

lemma empty_sample:
  assumes "count_true (concat m) = 0" "shape2 l s m" "j < l" "k < s"
  shows "\<not> m ! j ! k"
proof -
  have "m ! j \<in> set m" using assms by (simp add: shape2_length)
  moreover have "m ! j ! k \<in> set (m ! j)" using assms by (simp add: shape2_nth)
  ultimately show ?thesis using assms(1) by (auto simp: count_true_zero list_all_iff)
qed

lemma where1_none: "list_all Not flags \<Longrightarrow> where1 flags = []"
proof -
  assume "list_all Not flags"
  then have "set (where1 flags) = {}" by (auto simp: set_where1 list_all_length)
  then show ?thesis by simp
qed

lemma distinct_singleton:
  assumes "distinct xs" "set xs = {a}"
  shows "xs = [a]"
proof (cases xs)
  case Nil
  then show ?thesis using assms by simp
next
  case (Cons x ys)
  then have x: "x = a" using assms(2) by auto
  have "set ys \<subseteq> {a}" "a \<notin> set ys" using assms Cons x by auto
  then have "ys = []" by (cases ys) auto
  then show ?thesis using Cons x by simp
qed

lemma where1_first_only:
  assumes "0 < length flags" "flags ! 0" "\<And>i. 0 < i \<Longrightarrow> i < length flags \<Longrightarrow> \<not> flags ! i"
  shows "where1 flags = [0]"
proof -
  have "set (where1 flags) = {0}"
    using assms by (auto simp: set_where1 intro: ccontr)
  then show ?thesis using distinct_where1 by (rule distinct_singleton [rotated])
qed

lemma matches_extract:
  assumes v: "valid_call self conf data h0c w0c h1c w1c h0i"
    and mm: "match_mask self conf h0c w0c h1c w1c data = Inr msk"
    and sh: "shape3 (length conf) (h0c * w0c) (h1c * w1c) msk"
  shows "\<exists>r. get_coarse_match self conf data = Inr r \<and>
           matches r = map (\<lambda>p. (fst p, snd p, first_max (msk ! fst p ! snd p),
                                 conf ! fst p ! snd p ! first_max (msk ! fst p ! snd p)))
                           (extracted msk)"
  unfolding get_coarse_match_extract [OF v mm sh]
  by (simp add: matches_def case_prod_beta zip4_maps)

lemma flags_empty_sample:
  assumes "count_true (concat m) = 0" "shape2 l s m"
  shows "list_all Not (map (list_ex (\<lambda>x. x)) m)"
proof -
  have "\<not> list_ex (\<lambda>x. x) (m ! j)" if "j < l" for j
    using empty_sample [OF assms that] assms(2) that
    by (auto simp: list_ex_length shape2_nth)
  then show ?thesis using assms(2) by (simp add: list_all_length shape2_length)
qed

lemma flags_set_first:
  assumes e: "count_true (concat m) = 0" and m: "shape2 l s m" and pos: "0 < l" "0 < s"
  shows "where1 (map (list_ex (\<lambda>x. x)) (set_first m)) = [0]"
    and "first_max (set_first m ! 0) = 0"
proof -
  have sf: "shape2 l s (set_first m)" using m by (rule shape2_set_first)
  have ent: "\<And>j k. j < l \<Longrightarrow> k < s \<Longrightarrow> set_first m ! j ! k = (j = 0 \<and> k = 0)"
    using nth_set_first [OF m] empty_sample [OF e m] by simp
  have row0: "list_ex (\<lambda>x. x) (set_first m ! 0)"
    using ent [of 0 0] pos sf by (auto simp: list_ex_length shape2_nth)
  have rest: "\<not> list_ex (\<lambda>x. x) (set_first m ! j)" if "0 < j" "j < l" for j
    using ent [of j] that sf by (auto simp: list_ex_length shape2_nth)
  show "where1 (map (list_ex (\<lambda>x. x)) (set_first m)) = [0]"
    using row0 rest pos sf by (intro where1_first_only) (simp_all add: shape2_length)
  have "set_first m ! 0 ! 0" using ent [of 0 0] pos by simp
  then show "first_max (set_first m ! 0) = 0"
    using first_max_props [OF row0] by (cases "first_max (set_first m ! 0)") auto
qed

lemma filter_extracted:
  "n < length msk \<Longrightarrow>
   filter (\<lambda>p. fst p = n) (extracted msk) = map (Pair n) (where1 (map (list_ex (\<lambda>x. x)) (msk ! n)))"
  by (simp add: extracted_def filter_where2)

subsection \<open>Example calls\<close>

lemma demo_valid_tie:
  "valid_call demo_matcher [[[1 / 2, 1 / 2]]] (demo_data (1, 1) (1, 2)) 1 1 1 2 8"
  by (simp add: valid_call_def demo_matcher_def demo_data_def shape3_def shape2_def scales_fit_def)

lemma demo_valid_training:
  "valid_call demo_matcher [[[1 / 10]]]
     ((demo_data (1, 1) (1, 1))\<lparr> dataset_name := Some ''MegaDepth'' \<rparr>) 1 1 1 1 8"
  by (simp add: valid_call_def demo_matcher_def demo_data_def shape3_def shape2_def scales_fit_def)

lemma demo_valid_scaled:
  "valid_call demo_matcher [[[9 / 10, 0], [0, 9 / 10]]]
     ((demo_data (2, 1) (1, 2))\<lparr> scale0 := Some [(2, 3)] \<rparr>) 2 1 1 2 8"
  by (simp add: valid_call_def demo_matcher_def demo_data_def shape3_def shape2_def scales_fit_def)

section \<open>The claims\<close>

subsection \<open>C1: the dual-softmax confidence matrix\<close>

text \<open>
  C1: for a matcher constructed in dual-softmax mode with temperature \<open>t\<close> (not 0; the
  entries are real numbers) and feature batches of shapes [N, L, C] and [N, S, C],
  \<open>forward\<close> computes a confidence matrix of shape [N, L, S] and stores it in \<open>data\<close>.
  Its entry (n, l, s) is the softmax of the similarity over the image-0 axis times the
  softmax of the similarity over the image-1 axis, where the similarity is the product of
  the two feature vectors, each scaled by 1 / sqrt C, divided by \<open>t\<close>, and -1e9 wherever
  both masks are supplied and either cell is invalid.
\<close>

theorem dual_softmax_confidence:
  assumes "init sg cfg = Inr self"
    and "cfg_match_type cfg = Some ''dual_softmax''"
    and "cfg_dsmax_temperature cfg = Some t" and "t \<noteq> 0"
    and "shape3 N L C feat_c0" and "shape3 N S C feat_c1"
    and "0 < N" and "0 < L" and "0 < S"
    and "masks_fit N L S mask_c0 mask_c1"
  shows "\<exists>conf.
           forward_conf self feat_c0 feat_c1 mask_c0 mask_c1 = Inr conf \<and>
           conf_matrix (snd (forward self feat_c0 feat_c1 data mask_c0 mask_c1)) = Some conf \<and>
           shape3 N L S conf \<and>
           (\<forall>n<N. \<forall>l<L. \<forall>s<S. conf ! n ! l ! s =
              spec_confidence L S (spec_similarity t feat_c0 feat_c1 mask_c0 mask_c1 C) n l s)"
proof -
  have "temperature self = Some t"
    using assms(1-3) by (simp add: init_dual_softmax_temperature)
  from forward_conf_entries [OF this assms(5-10)] show ?thesis
    by (blast intro: forward_conf_matrix)
qed

theorem dual_softmax_confidence_witness:
  "init True (demo_config ''dual_softmax'') = Inr demo_matcher \<and>
   cfg_match_type (demo_config ''dual_softmax'') = Some ''dual_softmax'' \<and>
   cfg_dsmax_temperature (demo_config ''dual_softmax'') = Some 1 \<and> (1::real) \<noteq> 0 \<and>
   shape3 1 2 1 [[[1::real], [0]]] \<and> shape3 1 1 1 [[[1::real]]] \<and>
   masks_fit 1 2 1 (Some [[True, False]]) (Some [[True]]) \<and>
   (\<exists>conf.
      forward_conf demo_matcher [[[1], [0]]] [[[1]]] (Some [[True, False]]) (Some [[True]]) = Inr conf \<and>
      conf_matrix (snd (forward demo_matcher [[[1], [0]]] [[[1]]] (demo_data (2, 1) (1, 1))
                         (Some [[True, False]]) (Some [[True]]))) = Some conf \<and>
      shape3 1 2 1 conf \<and>
      (\<forall>n<1. \<forall>l<2. \<forall>s<1. conf ! n ! l ! s =
         spec_confidence 2 1
           (spec_similarity 1 [[[1], [0]]] [[[1]]] (Some [[True, False]]) (Some [[True]]) 1) n l s))"
proof -
  have h1: "init True (demo_config ''dual_softmax'') = Inr demo_matcher"
    by (rule demo_matcher_init)
  have h2: "cfg_match_type (demo_config ''dual_softmax'') = Some ''dual_softmax''"
    and h3: "cfg_dsmax_temperature (demo_config ''dual_softmax'') = Some 1"
    by (simp_all add: demo_config_def)
  have h4: "(1::real) \<noteq> 0" by simp
  have h5: "shape3 1 2 1 [[[1::real], [0]]]" and h6: "shape3 1 1 1 [[[1::real]]]"
    by (simp_all add: shape3_def shape2_def)
  have h7: "masks_fit 1 2 1 (Some [[True, False]]) (Some [[True]])"
    by (simp add: masks_fit_def shape2_def)
  show ?thesis
    using h1 h2 h3 h5 h6 h7
      dual_softmax_confidence [OF h1 h2 h3 h4 h5 h6 _ _ _ h7, of "demo_data (2, 1) (1, 1)"]
    by simp
qed

subsection \<open>C2: extracted matches are mutual maxima above the threshold\<close>




subsection \<open>C3: exactly one validity mask\<close>

text \<open>
  C3: a call of \<open>forward\<close> with exactly one of the two validity masks must fail with a
  precondition violation. The code checks one direction only. With \<open>mask_c0\<close> alone the
  assertion fails and \<open>data\<close> is left as it was; with \<open>mask_c1\<close> alone no check is
  reached, the mask is ignored and the call returns what it returns without any mask:
  on 1 x 1 grids it returns normally, with a confidence matrix and one match.
\<close>

theorem forward_single_mask:
  "forward self feat_c0 feat_c1 data None (Some m1) = forward self feat_c0 feat_c1 data None None \<and>
   forward demo_matcher [[[0]]] [[[0]]] (demo_data (1, 1) (1, 1)) None (Some [[False]]) =
     (None, (demo_data (1, 1) (1, 1))
        \<lparr> conf_matrix := Some [[[1]]],
          coarse := Some \<lparr> b_ids = [0], i_ids = [0], j_ids = [0], m_bids = [0],
                            mkpts0_c = [(0, 0)], mkpts1_c = [(0, 0)], mconf = [1] \<rparr> \<rparr>) \<and>
   forward demo_matcher [[[0]]] [[[0]]] (demo_data (1, 1) (1, 1)) (Some [[False]]) None =
     (Some AssertionError, demo_data (1, 1) (1, 1))"
proof -
  have "forward_conf self feat_c0 feat_c1 None (Some m1) = forward_conf self feat_c0 feat_c1 None None"
    by (simp add: forward_conf_def Let_def split: option.split)
  then have "forward self feat_c0 feat_c1 data None (Some m1) = forward self feat_c0 feat_c1 data None None"
    by (simp add: forward_def)
  moreover have "forward demo_matcher [[[0]]] [[[0]]] (demo_data (1, 1) (1, 1)) None (Some [[False]]) =
     (None, (demo_data (1, 1) (1, 1))
        \<lparr> conf_matrix := Some [[[1]]],
          coarse := Some \<lparr> b_ids = [0], i_ids = [0], j_ids = [0], m_bids = [0],
                            mkpts0_c = [(0, 0)], mkpts1_c = [(0, 0)], mconf = [1] \<rparr> \<rparr>)"
    by (simp add: eval_defs)
  moreover have "forward demo_matcher [[[0]]] [[[0]]] (demo_data (1, 1) (1, 1)) (Some [[False]]) None =
     (Some AssertionError, demo_data (1, 1) (1, 1))"
    by (simp add: eval_defs)
  ultimately show ?thesis by blast
qed

subsection \<open>C4: Sinkhorn mode\<close>



subsection \<open>C5: the training-time fallback match\<close>

text \<open>
  C5: let a sample \<open>n\<close> have no entry left after thresholding, border masking and the
  mutual-nearest filter. In a training context (\<open>dataset_name\<close> in \<open>data\<close>) the matches of
  sample \<open>n\<close> are exactly one, at the cell pair (0, 0), with the confidence
  \<open>conf[n][0][0]\<close> of the confidence matrix; outside a training context sample \<open>n\<close> has no
  match.
\<close>

theorem training_fallback:
  assumes v: "valid_call self conf data h0c w0c h1c w1c h0i"
  shows "\<exists>mn r.
     mutual_nearest self conf h0c w0c h1c w1c data = Inr mn \<and>
     get_coarse_match self conf data = Inr r \<and>
     (\<forall>n<length conf. count_true (concat (mn ! n)) = 0 \<longrightarrow>
        filter (\<lambda>m. fst m = n) (matches r) =
          (if dataset_name data = None then [] else [(n, 0, 0, conf ! n ! 0 ! 0)]))"
proof -
  let ?N = "length conf" and ?L = "h0c * w0c" and ?S = "h1c * w1c"
  have pos: "0 < ?L" "0 < ?S" using v by (simp_all add: valid_call_def)
  from match_mask_valid [OF v] obtain mn where
    mn: "mutual_nearest self conf h0c w0c h1c w1c data = Inr mn"
    and smn: "shape3 ?N ?L ?S mn"
    and mm: "match_mask self conf h0c w0c h1c w1c data =
           Inr (if dataset_name data = None then mn else fill_empty mn)"
    and sh: "shape3 ?N ?L ?S (if dataset_name data = None then mn else fill_empty mn)"
    by blast
  define msk where "msk = (if dataset_name data = None then mn else fill_empty mn)"
  let ?F = "\<lambda>p. (fst p, snd p, first_max (msk ! fst p ! snd p),
                  conf ! fst p ! snd p ! first_max (msk ! fst p ! snd p))"
  from matches_extract [OF v mm [folded msk_def] sh [folded msk_def]] obtain r where
    r: "get_coarse_match self conf data = Inr r"
    and mr: "matches r = map ?F (extracted msk)"
    by blast
  have "filter (\<lambda>m. fst m = n) (matches r) =
          (if dataset_name data = None then [] else [(n, 0, 0, conf ! n ! 0 ! 0)])"
    if n: "n < ?N" and e: "count_true (concat (mn ! n)) = 0" for n
  proof -
    have m2: "shape2 ?L ?S (mn ! n)" using smn n by (rule shape3_nth)
    have len: "n < length msk" using sh n by (simp add: msk_def shape3_length)
    have "filter (\<lambda>m. fst m = n) (matches r) = map ?F (filter (\<lambda>p. fst p = n) (extracted msk))"
      by (simp add: mr filter_map comp_def)
    also have "\<dots> = map ?F (map (Pair n) (where1 (map (list_ex (\<lambda>x. x)) (msk ! n))))"
      using len by (simp only: filter_extracted)
    finally have f: "filter (\<lambda>m. fst m = n) (matches r) =
        map ?F (map (Pair n) (where1 (map (list_ex (\<lambda>x. x)) (msk ! n))))" .
    show ?thesis
    proof (cases "dataset_name data = None")
      case True
      then have "msk ! n = mn ! n" by (simp add: msk_def)
      then have "where1 (map (list_ex (\<lambda>x. x)) (msk ! n)) = []"
        using flags_empty_sample [OF e m2] by (simp add: where1_none)
      then show ?thesis using True f by simp
    next
      case False
      then have mk: "msk ! n = set_first (mn ! n)"
        using n smn e by (auto simp: msk_def nth_fill_empty shape3_length)
      show ?thesis
        using False f flags_set_first [OF e m2 pos] by (simp add: mk)
    qed
  qed
  then show ?thesis using mn r by blast
qed

theorem training_fallback_witness:
  "valid_call demo_matcher [[[1 / 10]]]
     ((demo_data (1, 1) (1, 1))\<lparr> dataset_name := Some ''MegaDepth'' \<rparr>) 1 1 1 1 8 \<and>
   (\<exists>mn r.
     mutual_nearest demo_matcher [[[1 / 10]]] 1 1 1 1
       ((demo_data (1, 1) (1, 1))\<lparr> dataset_name := Some ''MegaDepth'' \<rparr>) = Inr mn \<and>
     get_coarse_match demo_matcher [[[1 / 10]]]
       ((demo_data (1, 1) (1, 1))\<lparr> dataset_name := Some ''MegaDepth'' \<rparr>) = Inr r \<and>
     (\<forall>n<length [[[1 / 10 :: real]]]. count_true (concat (mn ! n)) = 0 \<longrightarrow>
        filter (\<lambda>m. fst m = n) (matches r) =
          (if dataset_name ((demo_data (1, 1) (1, 1))\<lparr> dataset_name := Some ''MegaDepth'' \<rparr>) = None
           then [] else [(n, 0, 0, [[[1 / 10]]] ! n ! 0 ! 0)])))"
  using demo_valid_training training_fallback [OF demo_valid_training] by (rule conjI)

subsection \<open>C6: confidences lie in the unit interval\<close>



subsection \<open>C7: border masking with a margin that is not positive\<close>

text \<open>
  C7: with a border margin of 0, and any margin below, the fixed-size variant
  \<open>mask_border\<close> and the padding-aware variant \<open>mask_border_with_padding\<close> both return
  the mask they were given, whatever the mask, the fill value and the padded masks are:
  neither raises and neither changes an entry, as if no masking had been applied.
\<close>

theorem border_masks_noop:
  "b \<le> 0 \<Longrightarrow>
   mask_border m b v = m \<and> mask_border_with_padding m b v p_m0 p_m1 = Inr m"
  by (simp add: mask_border_def mask_border_with_padding_def)

theorem border_masks_noop_witness:
  "(0::int) \<le> 0 \<and>
   mask_border [[[[[True, False]]]]] 0 False = [[[[[True, False]]]]] \<and>
   mask_border_with_padding [[[[[True, False]]]]] 0 False [[[True]]] [[[True, False]]]
     = Inr [[[[[True, False]]]]]"
  using border_masks_noop [of 0 "[[[[[True, False]]]]]" False "[[[True]]]" "[[[True, False]]]"]
  by simp

subsection \<open>C8: keypoint coordinates\<close>

text \<open>
  C8: for the k-th extracted match, with flat indices \<open>i\<close> in image 0 and \<open>j\<close> in image 1,
  the keypoint of image 0 is (i mod w0c, i div w0c) and that of image 1 is
  (j mod w1c, j div w1c), each coordinate multiplied by the effective scale: the ratio
  of the original height of image 0 to the coarse-grid height of image 0, for both
  images, times the factors of \<open>scale0\<close> (respectively \<open>scale1\<close>) of the match's sample
  when that key is supplied.
\<close>

theorem keypoint_coordinates:
  assumes v: "valid_call self conf data h0c w0c h1c w1c h0i"
  shows "\<exists>r.
     get_coarse_match self conf data = Inr r \<and>
     length (i_ids r) = length (b_ids r) \<and> length (j_ids r) = length (b_ids r) \<and>
     length (mkpts0_c r) = length (b_ids r) \<and> length (mkpts1_c r) = length (b_ids r) \<and>
     (\<forall>k<length (b_ids r).
        mkpts0_c r ! k =
          (real (i_ids r ! k mod w0c) *
             fst (effective_scale (real h0i / real h0c) (scale0 data) (b_ids r ! k)),
           real (i_ids r ! k div w0c) *
             snd (effective_scale (real h0i / real h0c) (scale0 data) (b_ids r ! k))) \<and>
        mkpts1_c r ! k =
          (real (j_ids r ! k mod w1c) *
             fst (effective_scale (real h0i / real h0c) (scale1 data) (b_ids r ! k)),
           real (j_ids r ! k div w1c) *
             snd (effective_scale (real h0i / real h0c) (scale1 data) (b_ids r ! k))))"
proof -
  from match_mask_valid [OF v] obtain mn where
    mm: "match_mask self conf h0c w0c h1c w1c data =
           Inr (if dataset_name data = None then mn else fill_empty mn)"
    and sh: "shape3 (length conf) (h0c * w0c) (h1c * w1c)
           (if dataset_name data = None then mn else fill_empty mn)"
    by blast
  define msk where "msk = (if dataset_name data = None then mn else fill_empty mn)"
  note gm = get_coarse_match_extract [OF v mm [folded msk_def] sh [folded msk_def]]
  show ?thesis
    unfolding gm by (simp add: nth_keypoints length_keypoints)
qed

theorem keypoint_coordinates_witness:
  "valid_call demo_matcher [[[9 / 10, 0], [0, 9 / 10]]]
     ((demo_data (2, 1) (1, 2))\<lparr> scale0 := Some [(2, 3)] \<rparr>) 2 1 1 2 8 \<and>
   (\<exists>r.
     get_coarse_match demo_matcher [[[9 / 10, 0], [0, 9 / 10]]]
       ((demo_data (2, 1) (1, 2))\<lparr> scale0 := Some [(2, 3)] \<rparr>) = Inr r \<and>
     length (i_ids r) = length (b_ids r) \<and> length (j_ids r) = length (b_ids r) \<and>
     length (mkpts0_c r) = length (b_ids r) \<and> length (mkpts1_c r) = length (b_ids r) \<and>
     (\<forall>k<length (b_ids r).
        mkpts0_c r ! k =
          (real (i_ids r ! k mod 1) *
             fst (effective_scale (real 8 / real 2)
                    (scale0 ((demo_data (2, 1) (1, 2))\<lparr> scale0 := Some [(2, 3)] \<rparr>)) (b_ids r ! k)),
           real (i_ids r ! k div 1) *
             snd (effective_scale (real 8 / real 2)
                    (scale0 ((demo_data (2, 1) (1, 2))\<lparr> scale0 := Some [(2, 3)] \<rparr>)) (b_ids r ! k))) \<and>
        mkpts1_c r ! k =
          (real (j_ids r ! k mod 2) *
             fst (effective_scale (real 8 / real 2)
                    (scale1 ((demo_data (2, 1) (1, 2))\<lparr> scale0 := Some [(2, 3)] \<rparr>)) (b_ids r ! k)),
           real (j_ids r ! k div 2) *
             snd (effective_scale (real 8 / real 2)
                    (scale1 ((demo_data (2, 1) (1, 2))\<lparr> scale0 := Some [(2, 3)] \<rparr>)) (b_ids r ! k)))))"
  using demo_valid_scaled keypoint_coordinates [OF demo_valid_scaled] by (rule conjI)

subsection \<open>C9: the configured border margin is overridden\<close>

text \<open>
  C9: whatever border margin the configuration holds, a matcher that \<open>init\<close> returns has
  the border margin 0. So both border-masking variants, called with that margin, return
  their mask unchanged, and step 1 of \<open>get_coarse_match\<close> yields exactly the thresholded
  mask: border masking removes no candidate pair.
\<close>

theorem border_margin_overridden:
  assumes "init sg cfg = Inr self"
  shows "border_rm self = 0 \<and>
         mask_border m (border_rm self) v = m \<and>
         mask_border_with_padding m (border_rm self) v p_m0 p_m1 = Inr m \<and>
         (shape3 (length conf) (h0c * w0c) (h1c * w1c) conf \<and>
          (mask0 data = None \<or> mask1 data \<noteq> None) \<longrightarrow>
          threshold_border self conf h0c w0c h1c w1c data = Inr (gt_scalar conf (thr self)))"
proof -
  have z: "border_rm self = 0" using assms by (rule init_border_rm)
  then show ?thesis
    by (simp add: mask_border_def mask_border_with_padding_def threshold_border_zero)
qed

theorem border_margin_overridden_witness:
  "init True (demo_config ''dual_softmax'') = Inr demo_matcher \<and>
   cfg_border_rm (demo_config ''dual_softmax'') = Some 2 \<and>
   border_rm demo_matcher = 0 \<and>
   mask_border [[[[[True]]]]] (border_rm demo_matcher) False = [[[[[True]]]]] \<and>
   mask_border_with_padding [[[[[True]]]]] (border_rm demo_matcher) False [[[True]]] [[[True]]]
     = Inr [[[[[True]]]]] \<and>
   threshold_border demo_matcher [[[1 / 2, 1 / 2]]] 1 1 1 2 (demo_data (1, 1) (1, 2)) =
     Inr (gt_scalar [[[1 / 2, 1 / 2]]] (thr demo_matcher))"
proof -
  have i: "init True (demo_config ''dual_softmax'') = Inr demo_matcher"
    by (rule demo_matcher_init)
  have s: "shape3 (length [[[1 / 2, 1 / 2 :: real]]]) (1 * 1) (1 * 2) [[[1 / 2, 1 / 2 :: real]]]"
    by (simp add: shape3_def shape2_def)
  have m: "mask0 (demo_data (1, 1) (1, 2)) = None"
    by (simp add: demo_data_def)
  have c: "cfg_border_rm (demo_config ''dual_softmax'') = Some 2"
    by (simp add: demo_config_def)
  note t = border_margin_overridden [OF i, of "[[[[[True]]]]]" False "[[[True]]]" "[[[True]]]"
        "[[[1 / 2, 1 / 2]]]" 1 1 1 2 "demo_data (1, 1) (1, 2)"]
  have "threshold_border demo_matcher [[[1 / 2, 1 / 2]]] 1 1 1 2 (demo_data (1, 1) (1, 2)) =
     Inr (gt_scalar [[[1 / 2, 1 / 2]]] (thr demo_matcher))"
    using t s m by blast
  then show ?thesis using i c t by blast
qed

subsection \<open>C10: one partner per row, the first True column\<close>

text \<open>
  C10: in the result no pair (batch index, cell of image 0) occurs twice, and the partner
  recorded for a row of the final mask is the first column holding True in that row: the
  mask is True there and False at every smaller column.
\<close>

theorem one_partner_per_row:
  assumes v: "valid_call self conf data h0c w0c h1c w1c h0i"
  shows "\<exists>msk r.
     match_mask self conf h0c w0c h1c w1c data = Inr msk \<and>
     get_coarse_match self conf data = Inr r \<and>
     distinct (zip (b_ids r) (i_ids r)) \<and>
     length (i_ids r) = length (b_ids r) \<and> length (j_ids r) = length (b_ids r) \<and>
     (\<forall>k<length (b_ids r).
        msk ! (b_ids r ! k) ! (i_ids r ! k) ! (j_ids r ! k) \<and>
        (\<forall>s<j_ids r ! k. \<not> msk ! (b_ids r ! k) ! (i_ids r ! k) ! s))"
proof -
  from match_mask_valid [OF v] obtain mn where
    mm: "match_mask self conf h0c w0c h1c w1c data =
           Inr (if dataset_name data = None then mn else fill_empty mn)"
    and sh: "shape3 (length conf) (h0c * w0c) (h1c * w1c)
           (if dataset_name data = None then mn else fill_empty mn)"
    by blast
  define msk where "msk = (if dataset_name data = None then mn else fill_empty mn)"
  note gm = get_coarse_match_extract [OF v mm [folded msk_def] sh [folded msk_def]]
  define r where "r = projr (get_coarse_match self conf data)"
  have r: "get_coarse_match self conf data = Inr r" by (simp add: r_def gm)
  have b: "b_ids r = map fst (extracted msk)" and i: "i_ids r = map snd (extracted msk)"
    and j: "j_ids r = map (\<lambda>(b, i). first_max (msk ! b ! i)) (extracted msk)"
    by (simp_all add: r_def gm)
  have d: "distinct (zip (b_ids r) (i_ids r))"
    by (simp add: b i zip_map_fst_snd distinct_extracted)
  have "msk ! (b_ids r ! k) ! (i_ids r ! k) ! (j_ids r ! k) \<and>
        (\<forall>s<j_ids r ! k. \<not> msk ! (b_ids r ! k) ! (i_ids r ! k) ! s)"
    if "k < length (b_ids r)" for k
  proof -
    have k: "k < length (extracted msk)" using that by (simp add: b)
    obtain bb ii where e: "extracted msk ! k = (bb, ii)" by (cases "extracted msk ! k")
    from extracted_nth [OF sh [folded msk_def] k e] show ?thesis
      using k e by (simp add: b i j)
  qed
  then show ?thesis using mm [folded msk_def] r d by (auto simp: b i j)
qed

theorem one_partner_per_row_witness:
  "valid_call demo_matcher [[[1 / 2, 1 / 2]]] (demo_data (1, 1) (1, 2)) 1 1 1 2 8 \<and>
   (\<exists>msk r.
     match_mask demo_matcher [[[1 / 2, 1 / 2]]] 1 1 1 2 (demo_data (1, 1) (1, 2)) = Inr msk \<and>
     get_coarse_match demo_matcher [[[1 / 2, 1 / 2]]] (demo_data (1, 1) (1, 2)) = Inr r \<and>
     distinct (zip (b_ids r) (i_ids r)) \<and>
     length (i_ids r) = length (b_ids r) \<and> length (j_ids r) = length (b_ids r) \<and>
     (\<forall>k<length (b_ids r).
        msk ! (b_ids r ! k) ! (i_ids r ! k) ! (j_ids r ! k) \<and>
        (\<forall>s<j_ids r ! k. \<not> msk ! (b_ids r ! k) ! (i_ids r ! k) ! s)))"
  using demo_valid_tie one_partner_per_row [OF demo_valid_tie] by (rule conjI)

end
